theory Spec2Isabelle
  imports Main
begin

section \<open>JavaScript strings, numbers and truthiness\<close>

text \<open>
  Strings are lists of 8-bit characters; the identifiers, type tokens and literals that the
  program handles are ASCII, and the case conversions below act on the ASCII letters.
  A value of type \<open>string option\<close> is an optional (\<open>?:\<close>) string field, \<open>None\<close> being
  \<open>undefined\<close>.
\<close>

definition upperChars :: string where
  "upperChars = ''ABCDEFGHIJKLMNOPQRSTUVWXYZ''"

definition lowerChars :: string where
  "lowerChars = ''abcdefghijklmnopqrstuvwxyz''"

definition digitChars :: string where
  "digitChars = ''0123456789''"

definition sq :: char where
  "sq = CHR 0x27"

definition dq :: char where
  "dq = CHR 0x22"

definition nl :: string where
  "nl = [CHR 0x0A]"

definition isUpper :: "char \<Rightarrow> bool" where
  "isUpper c = (c \<in> set upperChars)"

text \<open>The class \<open>\w\<close> of regular expressions, and its complement test \<open>[^a-zA-Z0-9_]\<close>.\<close>

definition isWordChar :: "char \<Rightarrow> bool" where
  "isWordChar c = (c \<in> set (lowerChars @ upperChars @ digitChars @ ''_''))"

text \<open>The class \<open>\s\<close> (and what \<open>trim\<close> removes), on ASCII.\<close>

definition isSpace :: "char \<Rightarrow> bool" where
  "isSpace c = (c \<in> set [CHR 0x09, CHR 0x0A, CHR 0x0B, CHR 0x0C, CHR 0x0D, CHR 0x20])"

definition toLowerChar :: "char \<Rightarrow> char" where
  "toLowerChar c = (case map_of (zip upperChars lowerChars) c of Some l \<Rightarrow> l | None \<Rightarrow> c)"

definition toUpperChar :: "char \<Rightarrow> char" where
  "toUpperChar c = (case map_of (zip lowerChars upperChars) c of Some u \<Rightarrow> u | None \<Rightarrow> c)"

definition toLowerCase :: "string \<Rightarrow> string" where
  "toLowerCase s = map toLowerChar s"

definition toUpperCase :: "string \<Rightarrow> string" where
  "toUpperCase s = map toUpperChar s"

text \<open>\<open>s.replace(/['"]/g, '')\<close>\<close>

definition stripQuotes :: "string \<Rightarrow> string" where
  "stripQuotes s = filter (\<lambda>c. c \<noteq> sq \<and> c \<noteq> dq) s"

text \<open>\<open>xs.join(sep)\<close>\<close>

fun join :: "string \<Rightarrow> string list \<Rightarrow> string" where
  "join sep [] = []"
| "join sep [x] = x"
| "join sep (x # y # ys) = x @ sep @ join sep (y # ys)"

fun startsWith :: "string \<Rightarrow> string \<Rightarrow> bool" where
  "startsWith s [] = True"
| "startsWith [] (p # ps) = False"
| "startsWith (c # cs) (p # ps) = (c = p \<and> startsWith cs ps)"

text \<open>\<open>s.includes(sub)\<close>\<close>

fun includesStr :: "string \<Rightarrow> string \<Rightarrow> bool" where
  "includesStr [] sub = (sub = [])"
| "includesStr (c # cs) sub = (startsWith (c # cs) sub \<or> includesStr cs sub)"

definition endsWith :: "string \<Rightarrow> string \<Rightarrow> bool" where
  "endsWith s suffix = startsWith (rev s) (rev suffix)"

text \<open>\<open>s.trim()\<close>\<close>

definition trim :: "string \<Rightarrow> string" where
  "trim s = rev (dropWhile isSpace (rev (dropWhile isSpace s)))"

text \<open>Truthiness of a string (non-empty) and of optional fields.\<close>

definition truthy :: "string \<Rightarrow> bool" where
  "truthy s = (s \<noteq> [])"

definition truthyOpt :: "string option \<Rightarrow> bool" where
  "truthyOpt s = (case s of None \<Rightarrow> False | Some t \<Rightarrow> truthy t)"

definition isTrue :: "bool option \<Rightarrow> bool" where
  "isTrue b = (b = Some True)"

text \<open>\<open>a || b\<close> on an optional string \<open>a\<close> and a string \<open>b\<close>.\<close>

definition orElse :: "string option \<Rightarrow> string \<Rightarrow> string" where
  "orElse a b = (case a of None \<Rightarrow> b | Some t \<Rightarrow> if truthy t then t else b)"

text \<open>
  The numbers that reach the generator come from \<open>parseInt\<close>: an integer or \<open>NaN\<close>.
  (Integers are printed in decimal, which is what JavaScript does below \<open>10^21\<close>.)
\<close>

datatype number = NaN | Num int

definition digitOf :: "nat \<Rightarrow> char" where
  "digitOf d = digitChars ! (d mod 10)"

function natToString :: "nat \<Rightarrow> string" where
  "natToString n = (if n < 10 then [digitOf n] else natToString (n div 10) @ [digitOf n])"
  by pat_completeness auto
termination
  by (relation "measure id") auto

definition numberToString :: "number \<Rightarrow> string" where
  "numberToString x =
     (case x of
        NaN \<Rightarrow> ''NaN''
      | Num i \<Rightarrow> (if i < 0 then ''-'' @ natToString (nat (- i)) else natToString (nat i)))"

definition truthyNum :: "number option \<Rightarrow> bool" where
  "truthyNum x = (case x of Some (Num i) \<Rightarrow> i \<noteq> 0 | _ \<Rightarrow> False)"

text \<open>
  Reading a key of an object literal also finds what the literal inherits from
  \<open>Object.prototype\<close>, an object that every part of the running program can read and
  write. A state of it is given here by the text that each of its truthy properties becomes
  in the output (under \<open>||\<close> a falsy property counts as an absent one). The value of an
  optional field of the metadata is what reading the field gives.
\<close>

type_synonym Prototype = "string \<Rightarrow> string option"

text \<open>
  Its initial state (on Node): the constructor, ten other functions, and the prototype
  itself under \<open>__proto__\<close>.
\<close>

definition inheritedFunctions :: "string list" where
  "inheritedFunctions =
    [''__defineGetter__'', ''__defineSetter__'', ''hasOwnProperty'', ''__lookupGetter__'',
     ''__lookupSetter__'', ''isPrototypeOf'', ''propertyIsEnumerable'', ''toString'',
     ''valueOf'', ''toLocaleString'']"

definition objectPrototype :: Prototype where
  "objectPrototype k =
     (if k = ''constructor'' then Some ''function Object() { [native code] }''
      else if k = ''__proto__'' then Some ''[object Object]''
      else if k \<in> set inheritedFunctions then Some (''function '' @ k @ ''() { [native code] }'')
      else None)"

text \<open>
  \<open>table[key]\<close> on an object literal given as its list of entries in source order:
  a key written twice keeps its last value, a key that is not written is read from the
  prototype.
\<close>

definition objectGet :: "Prototype \<Rightarrow> (string \<times> string) list \<Rightarrow> string \<Rightarrow> string option" where
  "objectGet proto entries k =
     (case map_of (rev entries) k of Some v \<Rightarrow> Some v | None \<Rightarrow> proto k)"

text \<open>
  \<open>toSnakeCase\<close>: \<open>str.replace(/([A-Z])/g, '_$1').toLowerCase().replace(/^_/, '')\<close>.
  The four classes of the program carry the same private copy of it.
\<close>

definition underscoreUpper :: "string \<Rightarrow> string" where
  "underscoreUpper s = concat (map (\<lambda>c. if isUpper c then [CHR ''_'', c] else [c]) s)"

definition dropLeadingUnderscore :: "string \<Rightarrow> string" where
  "dropLeadingUnderscore s = (case s of [] \<Rightarrow> [] | c # cs \<Rightarrow> if c = CHR ''_'' then cs else s)"

definition toSnakeCase :: "string \<Rightarrow> string" where
  "toSnakeCase str = dropLeadingUnderscore (toLowerCase (underscoreUpper str))"

text \<open>\<open>escapeIdentifier\<close> (the same in the three generator classes).\<close>

definition escapeIdentifier :: "string \<Rightarrow> string" where
  "escapeIdentifier identifier =
     (if list_ex (\<lambda>c. \<not> isWordChar c) identifier then [dq] @ identifier @ [dq]
      else identifier)"

text \<open>\<open>escapeNote\<close>: \<open>note.replace(/'/g, "\\'")\<close>.\<close>

definition escapeNote :: "string \<Rightarrow> string" where
  "escapeNote note = concat (map (\<lambda>c. if c = sq then [CHR 0x5C, sq] else [c]) note)"

section \<open>The metadata model (\<open>parser/types\<close>)\<close>

text \<open>
  Every interface is a record. Its fields keep their names, after a prefix that tells the
  interface apart (\<open>c_\<close> for columns, \<open>r_\<close> for relations, \<open>e_\<close> for entities, ...), since
  several interfaces have a \<open>name\<close>, a \<open>type\<close> or \<open>columns\<close>. An optional field has an
  \<open>option\<close> type.
\<close>

datatype GenerationStrategy = increment | uuid | rowid

record ColumnMetadata =
  c_propertyName :: string
  c_columnName :: string
  c_type :: string
  c_isPrimary :: bool
  c_isGenerated :: bool
  c_generationStrategy :: "GenerationStrategy option"
  c_isNullable :: bool
  c_isUnique :: bool
  c_length :: "number option"
  c_precision :: "number option"
  c_scale :: "number option"
  c_default :: "string option"
  c_enumName :: "string option"
  c_enumValues :: "string list option"
  c_isArray :: "bool option"
  c_isCreateDate :: "bool option"
  c_isUpdateDate :: "bool option"
  c_isDeleteDate :: "bool option"
  c_isVersion :: "bool option"
  c_comment :: "string option"

record JoinColumnMetadata =
  jc_name :: "string option"
  jc_referencedColumnName :: "string option"

record JoinTableMetadata =
  jt_name :: "string option"
  jt_joinColumns :: "JoinColumnMetadata list option"
  jt_inverseJoinColumns :: "JoinColumnMetadata list option"

datatype RelationType = OneToOne | ManyToOne | OneToMany | ManyToMany

text \<open>
  \<open>onDelete\<close> and \<open>onUpdate\<close> are declared as one of five action names, and filled by
  an unchecked cast of the upper-cased text of the annotation: they are strings here.
\<close>

record RelationMetadata =
  r_propertyName :: string
  r_type :: RelationType
  r_target :: string
  r_inverseSide :: "string option"
  r_joinColumn :: "JoinColumnMetadata option"
  r_joinTable :: "JoinTableMetadata option"
  r_onDelete :: "string option"
  r_onUpdate :: "string option"

record IndexMetadata =
  i_name :: "string option"
  i_columns :: "string list"
  i_isUnique :: bool
  i_isSpatial :: "bool option"
  i_isFulltext :: "bool option"
  i_where :: "string option"
  i_type :: "string option"

record UniqueMetadata =
  u_name :: "string option"
  u_columns :: "string list"

record CheckMetadata =
  k_name :: "string option"
  k_expression :: string

record InheritanceMetadata =
  h_pattern :: string
  h_discriminatorColumn :: "string option"
  h_discriminatorValue :: "string option"

record EntityMetadata =
  e_name :: string
  e_tableName :: string
  e_schema :: "string option"
  e_columns :: "ColumnMetadata list"
  e_relations :: "RelationMetadata list"
  e_indexes :: "IndexMetadata list"
  e_checks :: "CheckMetadata list"
  e_uniques :: "UniqueMetadata list"
  e_note :: "string option"
  e_inheritance :: "InheritanceMetadata option"

record EnumMetadata =
  en_name :: string
  en_values :: "string list"

record JoinTableEntity =
  je_name :: string
  je_schema :: "string option"
  je_columns :: "ColumnMetadata list"
  je_indexes :: "IndexMetadata list"

record DBMLSchema =
  entities :: "EntityMetadata list"
  enums :: "EnumMetadata list"
  joinTables :: "JoinTableEntity list"

datatype TableGrouping = GroupBySchema | GroupNone

text \<open>\<open>GeneratorOptions\<close>: every field optional.\<close>

record GeneratorOptions =
  includeSchemas :: "bool option"
  includeIndexes :: "bool option"
  includeNotes :: "bool option"
  includeEnums :: "bool option"
  tableGrouping :: "TableGrouping option"
  projectName :: "string option"

text \<open>\<open>Required<GeneratorOptions>\<close>, as the constructor of the generator fills it.\<close>

record RequiredOptions =
  o_includeSchemas :: bool
  o_includeIndexes :: bool
  o_includeNotes :: bool
  o_includeEnums :: bool
  o_tableGrouping :: TableGrouping
  o_projectName :: string

section \<open>TypeMapper\<close>

definition typeMap :: "(string \<times> string) list" where
  "typeMap =
    [(''varchar'', ''varchar''), (''character varying'', ''varchar''), (''char'', ''char''),
     (''character'', ''char''), (''text'', ''text''), (''string'', ''varchar''),
     (''int'', ''integer''), (''integer'', ''integer''), (''int2'', ''smallint''),
     (''int4'', ''integer''), (''int8'', ''bigint''), (''smallint'', ''smallint''),
     (''bigint'', ''bigint''), (''decimal'', ''decimal''), (''numeric'', ''numeric''),
     (''real'', ''real''), (''float'', ''float''), (''float4'', ''real''),
     (''float8'', ''double precision''), (''double'', ''double precision''),
     (''double precision'', ''double precision''), (''money'', ''money''),
     (''number'', ''numeric''),
     (''boolean'', ''boolean''), (''bool'', ''boolean''),
     (''date'', ''date''), (''time'', ''time''), (''time without time zone'', ''time''),
     (''time with time zone'', ''timetz''), (''timestamp'', ''timestamp''),
     (''timestamp without time zone'', ''timestamp''),
     (''timestamp with time zone'', ''timestamptz''), (''timestamptz'', ''timestamptz''),
     (''datetime'', ''timestamp''), (''interval'', ''interval''),
     (''uuid'', ''uuid''),
     (''bytea'', ''bytea''), (''blob'', ''bytea''), (''binary'', ''bytea''),
     (''varbinary'', ''bytea''),
     (''json'', ''json''), (''jsonb'', ''jsonb''),
     (''xml'', ''xml''),
     (''inet'', ''inet''), (''cidr'', ''cidr''), (''macaddr'', ''macaddr''),
     (''point'', ''point''), (''line'', ''line''), (''lseg'', ''lseg''), (''box'', ''box''),
     (''path'', ''path''), (''polygon'', ''polygon''), (''circle'', ''circle''),
     (''int4range'', ''int4range''), (''int8range'', ''int8range''),
     (''numrange'', ''numrange''), (''tsrange'', ''tsrange''), (''tstzrange'', ''tstzrange''),
     (''daterange'', ''daterange''),
     (''tsvector'', ''tsvector''), (''tsquery'', ''tsquery''), (''bit'', ''bit''),
     (''varbit'', ''varbit''), (''bit varying'', ''varbit''),
     (''tinyint'', ''tinyint''), (''mediumint'', ''mediumint''), (''year'', ''year''),
     (''tinytext'', ''tinytext''), (''mediumtext'', ''mediumtext''),
     (''longtext'', ''longtext''), (''enum'', ''enum''), (''set'', ''set''),
     (''nvarchar'', ''nvarchar''), (''nchar'', ''nchar''), (''ntext'', ''ntext''),
     (''uniqueidentifier'', ''uuid''),
     (''number'', ''number''), (''varchar2'', ''varchar2''), (''nvarchar2'', ''nvarchar2''),
     (''clob'', ''clob''), (''nclob'', ''nclob''), (''raw'', ''raw''), (''long'', ''long'')]"

definition getBaseType :: "Prototype \<Rightarrow> string \<Rightarrow> string" where
  "getBaseType proto typeormType =
     (let type = toLowerCase typeormType
      in orElse (objectGet proto typeMap type) type)"

definition lengthTypes :: "string list" where
  "lengthTypes =
    [''varchar'', ''character varying'', ''char'', ''character'', ''nvarchar'', ''nchar'',
     ''varchar2'', ''nvarchar2'', ''bit'', ''varbit'', ''binary'', ''varbinary'']"

definition supportsLength :: "string \<Rightarrow> bool" where
  "supportsLength type = (toLowerCase type \<in> set lengthTypes)"

text \<open>
  \<open>mapType\<close>: an enum column returns its enum name at once; otherwise the base type, then
  the array notation, then the length or the precision.
\<close>

definition mapType :: "Prototype \<Rightarrow> ColumnMetadata \<Rightarrow> string" where
  "mapType proto column =
     (if truthyOpt (c_enumName column) then the (c_enumName column)
      else
        (let dbmlType = getBaseType proto (c_type column);
             dbmlType = (if isTrue (c_isArray column) then dbmlType @ ''[]'' else dbmlType)
         in if truthyNum (c_length column) \<and> supportsLength (c_type column)
            then dbmlType @ ''('' @ numberToString (the (c_length column)) @ '')''
            else (case c_precision column of
                    Some p \<Rightarrow>
                      (case c_scale column of
                         Some s \<Rightarrow> dbmlType @ ''('' @ numberToString p @ '','' @ numberToString s @ '')''
                       | None \<Rightarrow> dbmlType @ ''('' @ numberToString p @ '')'')
                  | None \<Rightarrow> dbmlType)))"

section \<open>TableGenerator\<close>

definition generateTableDeclaration :: "RequiredOptions \<Rightarrow> EntityMetadata \<Rightarrow> string" where
  "generateTableDeclaration opts entity =
     (let declaration = ''Table '' @ escapeIdentifier (e_tableName entity);
          options =
            (if o_includeSchemas opts \<and> truthyOpt (e_schema entity)
             then [''schema: '' @ [dq] @ the (e_schema entity) @ [dq]] else [])
            @ (if o_includeNotes opts \<and> truthyOpt (e_note entity)
               then [''note: '' @ [sq] @ escapeNote (the (e_note entity)) @ [sq]] else []);
          declaration =
            (if options \<noteq> [] then declaration @ '' ['' @ join '', '' options @ '']''
             else declaration)
      in declaration @ '' {'')"

definition formatDefaultValue :: "string \<Rightarrow> ColumnMetadata \<Rightarrow> string" where
  "formatDefaultValue defaultValue column =
     (if includesStr defaultValue ''('' \<or> includesStr (toLowerCase defaultValue) ''now''
      then ''`'' @ defaultValue @ ''`''
      else if c_type column = ''varchar'' \<or> c_type column = ''text''
              \<or> truthyOpt (c_enumName column)
      then [sq] @ defaultValue @ [sq]
      else if c_type column = ''boolean'' then toLowerCase defaultValue
      else defaultValue)"

text \<open>The \<open>settings\<close> array of \<open>generateColumnSettings\<close>, in the order of its pushes.\<close>

definition columnSettings :: "RequiredOptions \<Rightarrow> ColumnMetadata \<Rightarrow> string list" where
  "columnSettings opts column =
     (if c_isPrimary column
      then (if c_isGenerated column \<and> c_generationStrategy column = Some increment
            then [''pk'', ''increment'']
            else if c_isGenerated column \<and> c_generationStrategy column = Some uuid
            then [''pk'']
            else [''pk''])
      else [])
     @ (if c_isUnique column \<and> \<not> c_isPrimary column then [''unique''] else [])
     @ (if \<not> c_isNullable column then [''not null''] else [])
     @ (case c_default column of
          Some d \<Rightarrow> [''default: '' @ formatDefaultValue d column]
        | None \<Rightarrow> [])
     @ (if isTrue (c_isCreateDate column) \<or> isTrue (c_isUpdateDate column)
        then [''default: `now()`''] else [])
     @ (if o_includeNotes opts \<and> truthyOpt (c_comment column)
        then [''note: '' @ [sq] @ escapeNote (the (c_comment column)) @ [sq]] else [])"

definition generateColumnSettings :: "RequiredOptions \<Rightarrow> ColumnMetadata \<Rightarrow> string" where
  "generateColumnSettings opts column =
     (let settings = columnSettings opts column
      in if settings \<noteq> [] then ''['' @ join '', '' settings @ '']'' else [])"

definition generateColumn :: "Prototype \<Rightarrow> RequiredOptions \<Rightarrow> ColumnMetadata \<Rightarrow> string" where
  "generateColumn proto opts column =
     (let settings = generateColumnSettings opts column
      in join '' ''
           ([escapeIdentifier (c_columnName column), mapType proto column]
            @ (if truthy settings then [settings] else [])))"

definition generateIndex :: "IndexMetadata \<Rightarrow> string" where
  "generateIndex index =
     (let parts =
            (case i_columns index of
               [c] \<Rightarrow> [escapeIdentifier c]
             | cs \<Rightarrow> [''('' @ join '', '' (map escapeIdentifier cs) @ '')'']);
          settings =
            (if i_isUnique index then [''unique''] else [])
            @ (if truthyOpt (i_name index)
               then [''name: '' @ [sq] @ the (i_name index) @ [sq]] else [])
            @ (if truthyOpt (i_type index) then [''type: '' @ the (i_type index)] else [])
            @ (if truthyOpt (i_where index)
               then [''where: '' @ [sq] @ the (i_where index) @ [sq]] else [])
      in join '' ''
           (parts @ (if settings \<noteq> [] then [''['' @ join '', '' settings @ '']''] else [])))"

definition generateTable :: "Prototype \<Rightarrow> RequiredOptions \<Rightarrow> EntityMetadata \<Rightarrow> string" where
  "generateTable proto opts entity =
     (let columns = map (generateColumn proto opts) (e_columns entity);
          lines =
            [generateTableDeclaration opts entity]
            @ map (\<lambda>c. ''  '' @ c) columns
            @ (if o_includeIndexes opts \<and> e_indexes entity \<noteq> []
               then [[], ''  Indexes {'']
                    @ map (\<lambda>index. ''    '' @ generateIndex index) (e_indexes entity)
                    @ [''  }'']
               else [])
            @ [''}'']
      in join nl lines)"

section \<open>RelationGenerator\<close>

definition actionMap :: "(string \<times> string) list" where
  "actionMap =
    [(''CASCADE'', ''cascade''), (''SET NULL'', ''set null''), (''SET DEFAULT'', ''set default''),
     (''RESTRICT'', ''restrict''), (''NO ACTION'', ''no action'')]"

definition formatCascadeAction :: "Prototype \<Rightarrow> string \<Rightarrow> string" where
  "formatCascadeAction proto action =
     orElse (objectGet proto actionMap action) (toLowerCase action)"

definition generateRelationOptions :: "Prototype \<Rightarrow> RelationMetadata \<Rightarrow> string option" where
  "generateRelationOptions proto relation =
     (let options =
            (if truthyOpt (r_onDelete relation)
             then [''delete: '' @ formatCascadeAction proto (the (r_onDelete relation))] else [])
            @ (if truthyOpt (r_onUpdate relation)
               then [''update: '' @ formatCascadeAction proto (the (r_onUpdate relation))] else [])
      in if options \<noteq> [] then Some (''['' @ join '', '' options @ '']'') else None)"

text \<open>
  \<open>relation.joinColumn?.name || default\<close>: the name of the join column when the relation
  has one and it is a non-empty string.
\<close>

definition joinColumnNameOr :: "JoinColumnMetadata option \<Rightarrow> string \<Rightarrow> string" where
  "joinColumnNameOr jc d = (case jc of None \<Rightarrow> d | Some j \<Rightarrow> orElse (jc_name j) d)"

definition referencedColumnNameOr :: "JoinColumnMetadata option \<Rightarrow> string \<Rightarrow> string" where
  "referencedColumnNameOr jc d =
     (case jc of None \<Rightarrow> d | Some j \<Rightarrow> orElse (jc_referencedColumnName j) d)"

text \<open>The reference line of both \<open>generateManyToOne\<close> and \<open>generateOneToOne\<close>.\<close>

definition referenceLine :: "Prototype \<Rightarrow> string \<Rightarrow> EntityMetadata \<Rightarrow> RelationMetadata \<Rightarrow> string" where
  "referenceLine proto arrow entity relation =
     (let fromTable = e_tableName entity;
          toTable = r_target relation;
          joinColumnName =
            joinColumnNameOr (r_joinColumn relation)
              (toSnakeCase (r_propertyName relation) @ ''_id'');
          referencedColumnName = referencedColumnNameOr (r_joinColumn relation) ''id'';
          parts =
            [''Ref: '' @ escapeIdentifier fromTable @ ''.'' @ escapeIdentifier joinColumnName,
             arrow,
             escapeIdentifier toTable @ ''.'' @ escapeIdentifier referencedColumnName]
            @ (case generateRelationOptions proto relation of
                 Some options \<Rightarrow> [options]
               | None \<Rightarrow> [])
      in join '' '' parts)"

definition generateManyToOne :: "Prototype \<Rightarrow> EntityMetadata \<Rightarrow> RelationMetadata \<Rightarrow> string" where
  "generateManyToOne proto entity relation = referenceLine proto ''>'' entity relation"

definition generateOneToOne :: "Prototype \<Rightarrow> EntityMetadata \<Rightarrow> RelationMetadata \<Rightarrow> string option" where
  "generateOneToOne proto entity relation =
     (case r_joinColumn relation of
        None \<Rightarrow> None
      | Some jc \<Rightarrow> Some (referenceLine proto ''-'' entity relation))"

text \<open>\<open>columns?.[0]\<close>\<close>

definition firstJoinColumn :: "JoinColumnMetadata list option \<Rightarrow> JoinColumnMetadata option" where
  "firstJoinColumn cols = (case cols of Some (c # cs) \<Rightarrow> Some c | _ \<Rightarrow> None)"

definition generateManyToMany :: "EntityMetadata \<Rightarrow> RelationMetadata \<Rightarrow> string option" where
  "generateManyToMany entity relation =
     (case r_joinTable relation of
        None \<Rightarrow> None
      | Some joinTable \<Rightarrow>
          (let fromTable = e_tableName entity;
               toTable = r_target relation;
               joinTableName =
                 orElse (jt_name joinTable) (toSnakeCase fromTable @ ''_'' @ toSnakeCase toTable);
               fromJoinColumn = firstJoinColumn (jt_joinColumns joinTable);
               toJoinColumn = firstJoinColumn (jt_inverseJoinColumns joinTable);
               fromColumnName = joinColumnNameOr fromJoinColumn (toSnakeCase fromTable @ ''_id'');
               fromReferencedColumn = referencedColumnNameOr fromJoinColumn ''id'';
               toColumnName = joinColumnNameOr toJoinColumn (toSnakeCase toTable @ ''_id'');
               toReferencedColumn = referencedColumnNameOr toJoinColumn ''id'';
               refs =
                 [''Ref: '' @ escapeIdentifier joinTableName @ ''.'' @ escapeIdentifier fromColumnName
                  @ '' > '' @ escapeIdentifier fromTable @ ''.''
                  @ escapeIdentifier fromReferencedColumn,
                  ''Ref: '' @ escapeIdentifier joinTableName @ ''.'' @ escapeIdentifier toColumnName
                  @ '' > '' @ escapeIdentifier toTable @ ''.''
                  @ escapeIdentifier toReferencedColumn]
           in Some (join nl refs)))"

definition generateRelation :: "Prototype \<Rightarrow> EntityMetadata \<Rightarrow> RelationMetadata \<Rightarrow> string option" where
  "generateRelation proto entity relation =
     (case r_type relation of
        ManyToOne \<Rightarrow> Some (generateManyToOne proto entity relation)
      | OneToMany \<Rightarrow> None
      | OneToOne \<Rightarrow> generateOneToOne proto entity relation
      | ManyToMany \<Rightarrow> generateManyToMany entity relation)"

text \<open>The \<open>refs\<close> array of \<open>generateRelations\<close>: what is pushed, entity by entity.\<close>

definition relationRefs :: "Prototype \<Rightarrow> EntityMetadata list \<Rightarrow> string list" where
  "relationRefs proto ents =
     concat (map (\<lambda>entity.
       concat (map (\<lambda>relation.
         (case generateRelation proto entity relation of
            Some ref \<Rightarrow> (if truthy ref then [ref] else [])
          | None \<Rightarrow> [])) (e_relations entity))) ents)"

definition generateRelations :: "Prototype \<Rightarrow> EntityMetadata list \<Rightarrow> string" where
  "generateRelations proto ents =
     (let refs = relationRefs proto ents in if refs \<noteq> [] then join nl refs else [])"

section \<open>DBMLGenerator\<close>

record TableGenerator =
  tg_options :: RequiredOptions

record DBMLGenerator =
  g_tableGenerator :: TableGenerator
  g_options :: RequiredOptions

text \<open>The constructor: \<open>options?.field ?? default\<close> for every field.\<close>

definition optionField :: "GeneratorOptions option \<Rightarrow> (GeneratorOptions \<Rightarrow> 'a option) \<Rightarrow> 'a \<Rightarrow> 'a" where
  "optionField options field d =
     (case options of None \<Rightarrow> d | Some opts \<Rightarrow> (case field opts of None \<Rightarrow> d | Some v \<Rightarrow> v))"

definition requiredOptions :: "GeneratorOptions option \<Rightarrow> RequiredOptions" where
  "requiredOptions options =
     \<lparr> o_includeSchemas = optionField options includeSchemas True,
       o_includeIndexes = optionField options includeIndexes True,
       o_includeNotes = optionField options includeNotes True,
       o_includeEnums = optionField options includeEnums True,
       o_tableGrouping = optionField options tableGrouping GroupBySchema,
       o_projectName = optionField options projectName ''Database Schema'' \<rparr>"

definition newDBMLGenerator :: "GeneratorOptions option \<Rightarrow> DBMLGenerator" where
  "newDBMLGenerator options =
     \<lparr> g_tableGenerator = \<lparr> tg_options = requiredOptions options \<rparr>,
       g_options = requiredOptions options \<rparr>"

definition generateProjectHeader :: "RequiredOptions \<Rightarrow> string" where
  "generateProjectHeader opts =
     ''Project '' @ escapeIdentifier (o_projectName opts) @ '' {'' @ nl
     @ ''  database_type: '' @ [sq] @ ''PostgreSQL'' @ [sq] @ nl
     @ ''  Note: '' @ [sq] @ ''Generated from TypeORM entities'' @ [sq] @ nl
     @ ''}''"

definition generateEnums :: "EnumMetadata list \<Rightarrow> string" where
  "generateEnums ens =
     (let enumDefs =
            map (\<lambda>enumMeta.
              (let values = join nl (map (\<lambda>v. ''  '' @ escapeIdentifier v) (en_values enumMeta))
               in ''Enum '' @ escapeIdentifier (en_name enumMeta) @ '' {'' @ nl @ values @ nl @ ''}''))
              ens
      in join (nl @ nl) enumDefs)"

definition generateTables :: "Prototype \<Rightarrow> TableGenerator \<Rightarrow> EntityMetadata list \<Rightarrow> string" where
  "generateTables proto tg ents =
     join (nl @ nl) (map (generateTable proto (tg_options tg)) ents)"

text \<open>
  The \<open>Map\<close> of \<open>generateTableGroups\<close> iterates in the order in which its keys were first
  set: an association list, a new key appended at the end.
\<close>

fun groupPush :: "(string \<times> string list) list \<Rightarrow> string \<Rightarrow> string \<Rightarrow> (string \<times> string list) list" where
  "groupPush [] k v = [(k, [v])]"
| "groupPush ((k', vs) # rest) k v =
     (if k' = k then (k', vs @ [v]) # rest else (k', vs) # groupPush rest k v)"

definition schemaGroups :: "EntityMetadata list \<Rightarrow> (string \<times> string list) list" where
  "schemaGroups ents =
     foldl (\<lambda>groups entity. groupPush groups (orElse (e_schema entity) ''public'') (e_tableName entity))
       [] ents"

definition generateTableGroups :: "EntityMetadata list \<Rightarrow> string" where
  "generateTableGroups ents =
     (let groups =
            concat (map (\<lambda>(schema, tables).
              (if tables \<noteq> []
               then [''TableGroup '' @ escapeIdentifier schema @ '' {'' @ nl
                     @ join nl (map (\<lambda>t. ''  '' @ escapeIdentifier t) tables) @ nl @ ''}'']
               else [])) (schemaGroups ents))
      in join (nl @ nl) groups)"

text \<open>
  \<open>generate\<close>, in the state \<open>proto\<close> of \<open>Object.prototype\<close> at the time of the call. The
  method assigns to no field of the generator or of the schema and writes nothing to the
  prototype; its arrays and its map are local to the call.
\<close>

definition generate :: "Prototype \<Rightarrow> DBMLGenerator \<Rightarrow> DBMLSchema \<Rightarrow> string" where
  "generate proto g schema =
     (let opts = g_options g;
          tablesSection = generateTables proto (g_tableGenerator g) (entities schema);
          relationsSection = generateRelations proto (entities schema);
          tableGroupsSection = generateTableGroups (entities schema);
          sections =
            (if truthy (o_projectName opts) then [generateProjectHeader opts] else [])
            @ (if o_includeEnums opts \<and> enums schema \<noteq> [] then [generateEnums (enums schema)] else [])
            @ (if truthy tablesSection then [tablesSection] else [])
            @ (if truthy relationsSection then [relationsSection] else [])
            @ (if o_includeSchemas opts \<and> o_tableGrouping opts = GroupBySchema
                  \<and> truthy tableGroupsSection
               then [tableGroupsSection] else [])
      in join (nl @ nl) (filter (\<lambda>s. truthy (trim s)) sections))"


section \<open>The annotated class declarations read by the extractors\<close>

text \<open>
  The extractors read the syntax tree of the parser library through a few accessors:
  the kind of a node, its source text, its children, and the symbol of its type.
  \<open>getKind\<close> gives the syntax kind together with what \<open>asKind\<close> of that kind exposes.
\<close>

record EnumMember =
  m_name :: string
  m_initializer :: "string option"

datatype Declaration = EnumDeclaration "EnumMember list" | OtherDeclaration

record Symbol =
  s_name :: string
  s_declarations :: "Declaration list"

datatype Node = Node (getKind: SyntaxKind) (getText: string) (getSymbol: "Symbol option")
and SyntaxKind =
    StringLiteral
  | ArrayLiteralExpression "Node list"
  | ObjectLiteralExpression "ObjectLiteralElement list"
  | ArrowFunction string
  | OtherKind
and ObjectLiteralElement =
    PropertyAssignment string "Node option"
  | OtherElement

record Decorator =
  d_name :: string
  d_arguments :: "Node list"

text \<open>
  A property: \<open>p_type\<close> is the text of its declared type, \<open>p_jsDocs\<close> the comment of each
  documentation block (\<open>None\<close> when \<open>getComment\<close> does not return a string).
\<close>

record PropertyDeclaration =
  p_name :: string
  p_decorators :: "Decorator list"
  p_type :: string
  p_jsDocs :: "string option list"

record ClassDeclaration =
  cl_name :: "string option"
  cl_decorators :: "Decorator list"
  cl_properties :: "PropertyDeclaration list"
  cl_jsDocs :: "string option list"

text \<open>
  A \<open>Map\<close>: an association list in the order in which the keys were first set.
\<close>

definition mapHas :: "('k \<times> 'v) list \<Rightarrow> 'k \<Rightarrow> bool" where
  "mapHas m k = (k \<in> set (map fst m))"

definition mapGet :: "('k \<times> 'v) list \<Rightarrow> 'k \<Rightarrow> 'v option" where
  "mapGet m k = map_of m k"

fun mapSet :: "('k \<times> 'v) list \<Rightarrow> 'k \<Rightarrow> 'v \<Rightarrow> ('k \<times> 'v) list" where
  "mapSet [] k v = [(k, v)]"
| "mapSet ((k', v') # rest) k v = (if k' = k then (k, v) # rest else (k', v') # mapSet rest k v)"

definition mapValues :: "('k \<times> 'v) list \<Rightarrow> 'v list" where
  "mapValues m = map snd m"

text \<open>
  \<open>parseInt(value)\<close>: leading white space, a sign, then hexadecimal digits after \<open>0x\<close>
  or else decimal digits, as far as they go; \<open>NaN\<close> when there is none.
\<close>

definition hexChars :: string where
  "hexChars = ''0123456789abcdef''"

definition digitsValue :: "nat \<Rightarrow> string \<Rightarrow> string \<Rightarrow> int" where
  "digitsValue radix alphabet ds =
     foldl (\<lambda>acc c. acc * int radix + int (the (map_of (zip alphabet [0..<radix]) c))) 0 ds"

definition parseInt :: "string \<Rightarrow> number" where
  "parseInt value =
     (let t = dropWhile isSpace value;
          negative = startsWith t ''-'';
          t = (if startsWith t ''-'' \<or> startsWith t ''+'' then drop 1 t else t);
          sign = (if negative then - 1 else 1)
      in if startsWith (toLowerCase (take 2 t)) ''0x''
         then (let ds = takeWhile (\<lambda>c. c \<in> set hexChars) (toLowerCase (drop 2 t))
               in if ds = [] then NaN else Num (sign * digitsValue 16 hexChars ds))
         else (let ds = takeWhile (\<lambda>c. c \<in> set digitChars) t
               in if ds = [] then NaN else Num (sign * digitsValue 10 digitChars ds)))"

section \<open>ColumnExtractor\<close>

definition columnDecoratorNames :: "string list" where
  "columnDecoratorNames =
    [''Column'', ''PrimaryColumn'', ''PrimaryGeneratedColumn'', ''CreateDateColumn'',
     ''UpdateDateColumn'', ''DeleteDateColumn'', ''VersionColumn'']"

type_synonym EnumsMap = "(string \<times> EnumMetadata) list"

definition extractEnumMetadata :: "Node \<Rightarrow> ColumnMetadata \<times> EnumsMap \<Rightarrow> ColumnMetadata \<times> EnumsMap" where
  "extractEnumMetadata enumInitializer st =
     (let metadata = fst st; enumsMap = snd st
      in case getSymbol enumInitializer of
           None \<Rightarrow> (metadata, enumsMap)
         | Some symbol \<Rightarrow>
             (let enumName = s_name symbol;
                  metadata = metadata\<lparr> c_enumName := Some (toSnakeCase enumName) \<rparr>;
                  metadata = metadata\<lparr> c_type := toSnakeCase enumName \<rparr>
              in if mapHas enumsMap enumName then (metadata, enumsMap)
                 else (case s_declarations symbol of
                         [] \<Rightarrow> (metadata, enumsMap)
                       | enumDecl # others \<Rightarrow>
                           (case enumDecl of
                              EnumDeclaration members \<Rightarrow>
                                (let values =
                                       map (\<lambda>member.
                                         (case m_initializer member of
                                            Some initializer \<Rightarrow> stripQuotes initializer
                                          | None \<Rightarrow> m_name member)) members
                                 in (metadata\<lparr> c_enumValues := Some values \<rparr>,
                                     mapSet enumsMap enumName
                                       \<lparr> en_name = toSnakeCase enumName, en_values = values \<rparr>))
                            | OtherDeclaration \<Rightarrow> (metadata, enumsMap)))))"

text \<open>One round of the \<open>switch\<close> of \<open>extractColumnOptions\<close>.\<close>

definition columnOption :: "string \<Rightarrow> Node \<Rightarrow> ColumnMetadata \<times> EnumsMap \<Rightarrow> ColumnMetadata \<times> EnumsMap" where
  "columnOption name initializer st =
     (let metadata = fst st; enumsMap = snd st; value = getText initializer
      in if name = ''type'' then (metadata\<lparr> c_type := stripQuotes value \<rparr>, enumsMap)
         else if name = ''name'' then (metadata\<lparr> c_columnName := stripQuotes value \<rparr>, enumsMap)
         else if name = ''length'' then (metadata\<lparr> c_length := Some (parseInt value) \<rparr>, enumsMap)
         else if name = ''precision''
         then (metadata\<lparr> c_precision := Some (parseInt value) \<rparr>, enumsMap)
         else if name = ''scale'' then (metadata\<lparr> c_scale := Some (parseInt value) \<rparr>, enumsMap)
         else if name = ''nullable''
         then (metadata\<lparr> c_isNullable := (value = ''true'') \<rparr>, enumsMap)
         else if name = ''unique'' then (metadata\<lparr> c_isUnique := (value = ''true'') \<rparr>, enumsMap)
         else if name = ''default'' then (metadata\<lparr> c_default := Some (stripQuotes value) \<rparr>, enumsMap)
         else if name = ''comment'' then (metadata\<lparr> c_comment := Some (stripQuotes value) \<rparr>, enumsMap)
         else if name = ''array''
         then (metadata\<lparr> c_isArray := Some (value = ''true'') \<rparr>, enumsMap)
         else if name = ''enum'' then extractEnumMetadata initializer (metadata, enumsMap)
         else (metadata, enumsMap))"

fun extractColumnOptions :: "ObjectLiteralElement list \<Rightarrow> ColumnMetadata \<times> EnumsMap \<Rightarrow> ColumnMetadata \<times> EnumsMap" where
  "extractColumnOptions [] st = st"
| "extractColumnOptions (PropertyAssignment name (Some initializer) # props) st =
     extractColumnOptions props (columnOption name initializer st)"
| "extractColumnOptions (prop # props) st = extractColumnOptions props st"

text \<open>
  The loop over the arguments of the column annotation: every argument that is an object
  literal has its options applied, in order.
\<close>

fun extractOptionsOfArguments :: "Node list \<Rightarrow> ColumnMetadata \<times> EnumsMap \<Rightarrow> ColumnMetadata \<times> EnumsMap" where
  "extractOptionsOfArguments [] st = st"
| "extractOptionsOfArguments (arg # args) st =
     (case getKind arg of
        ObjectLiteralExpression props \<Rightarrow>
          extractOptionsOfArguments args (extractColumnOptions props st)
      | _ \<Rightarrow> extractOptionsOfArguments args st)"

text \<open>
  \<open>tsType.replace(/\s*\|\s*(null|undefined)/g, '')\<close>: \<open>matchNullable s\<close> is what follows a
  match of the pattern at the start of \<open>s\<close>.
\<close>

definition matchNullable :: "string \<Rightarrow> string option" where
  "matchNullable s =
     (case dropWhile isSpace s of
        [] \<Rightarrow> None
      | c # cs \<Rightarrow>
          (if c = CHR ''|''
           then (let r = dropWhile isSpace cs
                 in if startsWith r ''null'' then Some (drop 4 r)
                    else if startsWith r ''undefined'' then Some (drop 9 r)
                    else None)
           else None))"

function removeNullable :: "string \<Rightarrow> string" where
  "removeNullable [] = []"
| "removeNullable (c # cs) =
     (case matchNullable (c # cs) of
        Some rest \<Rightarrow> removeNullable rest
      | None \<Rightarrow> c # removeNullable cs)"
  by pat_completeness auto
termination
proof (relation "measure length")
  show "wf (measure length)"
    by simp
next
  fix c :: char and cs r :: string
  assume m: "matchNullable (c # cs) = Some r"
  obtain d ds where d: "dropWhile isSpace (c # cs) = d # ds"
    using m by (auto simp: matchNullable_def split: list.splits)
  have "length (dropWhile isSpace (c # cs)) \<le> length (c # cs)"
    by (rule length_dropWhile_le)
  then have ds: "length ds < length (c # cs)"
    using d by simp
  have r: "length r \<le> length (dropWhile isSpace ds)"
    using m d by (auto simp: matchNullable_def Let_def split: if_splits)
  have "length (dropWhile isSpace ds) \<le> length ds"
    by (rule length_dropWhile_le)
  then have "length r < length (c # cs)"
    using r ds by linarith
  then show "(r, c # cs) \<in> measure length"
    by simp
next
  fix c :: char and cs :: string
  show "(cs, c # cs) \<in> measure length"
    by simp
qed

text \<open>\<open>inferTypeFromTsType\<close> returns the type and sets \<open>isArray\<close> on the way.\<close>

definition inferTypeFromTsType :: "string \<Rightarrow> ColumnMetadata \<Rightarrow> string \<times> ColumnMetadata" where
  "inferTypeFromTsType tsType0 metadata =
     (let tsType = trim (removeNullable tsType0);
          isArr = endsWith tsType ''[]'';
          metadata = (if isArr then metadata\<lparr> c_isArray := Some True \<rparr> else metadata);
          tsType = (if isArr then take (length tsType - 2) tsType else tsType)
      in (if tsType = ''string'' then ''varchar''
          else if tsType = ''number'' then ''integer''
          else if tsType = ''boolean'' then ''boolean''
          else if tsType = ''Date'' then ''timestamp''
          else if tsType = ''Buffer'' then ''bytea''
          else if includesStr tsType ''{'' then ''json''
          else ''varchar'',
          metadata))"

text \<open>The comment of the first documentation block, when it is a string.\<close>

definition firstJsDocComment :: "string option list \<Rightarrow> string option" where
  "firstJsDocComment jsDocs = (case jsDocs of [] \<Rightarrow> None | c # others \<Rightarrow> c)"

text \<open>
  The first half of \<open>extractColumnFromProperty\<close>: the metadata set up from the name of the
  column annotation and its strategy argument, before the options are read.
\<close>

definition roleMetadata :: "string \<Rightarrow> Decorator \<Rightarrow> ColumnMetadata" where
  "roleMetadata propertyName columnDecorator =
     (let decoratorName = d_name columnDecorator;
          metadata =
            \<lparr> c_propertyName = propertyName,
              c_columnName = toSnakeCase propertyName,
              c_type = ''varchar'',
              c_isPrimary = False,
              c_isGenerated = False,
              c_generationStrategy = None,
              c_isNullable = True,
              c_isUnique = False,
              c_length = None,
              c_precision = None,
              c_scale = None,
              c_default = None,
              c_enumName = None,
              c_enumValues = None,
              c_isArray = None,
              c_isCreateDate = Some (decoratorName = ''CreateDateColumn''),
              c_isUpdateDate = Some (decoratorName = ''UpdateDateColumn''),
              c_isDeleteDate = Some (decoratorName = ''DeleteDateColumn''),
              c_isVersion = Some (decoratorName = ''VersionColumn''),
              c_comment = None \<rparr>;
          metadata =
            (if decoratorName = ''PrimaryColumn'' \<or> decoratorName = ''PrimaryGeneratedColumn''
             then metadata\<lparr> c_isPrimary := True, c_isNullable := False \<rparr>
             else metadata);
          metadata =
            (if decoratorName = ''PrimaryGeneratedColumn''
             then (let metadata = metadata\<lparr> c_isGenerated := True \<rparr>
                   in case d_arguments columnDecorator of
                        [] \<Rightarrow> metadata\<lparr> c_generationStrategy := Some increment,
                                         c_type := ''integer'' \<rparr>
                      | arg0 # others \<Rightarrow>
                          (let firstArg = stripQuotes (getText arg0)
                           in if firstArg = ''uuid''
                              then metadata\<lparr> c_generationStrategy := Some uuid,
                                              c_type := ''uuid'' \<rparr>
                              else if firstArg = ''increment''
                              then metadata\<lparr> c_generationStrategy := Some increment,
                                              c_type := ''integer'' \<rparr>
                              else if firstArg = ''rowid''
                              then metadata\<lparr> c_generationStrategy := Some rowid,
                                              c_type := ''integer'' \<rparr>
                              else metadata))
             else metadata);
          metadata =
            (if decoratorName \<in> set [''CreateDateColumn'', ''UpdateDateColumn'', ''DeleteDateColumn'']
             then metadata\<lparr> c_type := ''timestamp'', c_isNullable := False \<rparr>
             else metadata)
      in if decoratorName = ''VersionColumn''
         then metadata\<lparr> c_type := ''integer'', c_isNullable := False \<rparr>
         else metadata)"

text \<open>
  The second half: the options of every object-literal argument, the type inferred from
  the declared type, the documentation comment.
\<close>

definition extractColumnFromProperty :: "PropertyDeclaration \<Rightarrow> EnumsMap \<Rightarrow> ColumnMetadata option \<times> EnumsMap" where
  "extractColumnFromProperty property enumsMap =
     (case find (\<lambda>d. d_name d \<in> set columnDecoratorNames) (p_decorators property) of
        None \<Rightarrow> (None, enumsMap)
      | Some columnDecorator \<Rightarrow>
          (let metadata = roleMetadata (p_name property) columnDecorator;
               st = extractOptionsOfArguments (d_arguments columnDecorator) (metadata, enumsMap);
               metadata = fst st;
               enumsMap = snd st;
               metadata =
                 (if c_type metadata = ''varchar'' \<and> \<not> c_isGenerated metadata
                  then (let r = inferTypeFromTsType (p_type property) metadata
                        in (snd r)\<lparr> c_type := fst r \<rparr>)
                  else metadata);
               metadata =
                 (case firstJsDocComment (p_jsDocs property) of
                    Some comment \<Rightarrow> metadata\<lparr> c_comment := Some comment \<rparr>
                  | None \<Rightarrow> metadata)
           in (Some metadata, enumsMap)))"

fun extractColumns :: "PropertyDeclaration list \<Rightarrow> EnumsMap \<Rightarrow> ColumnMetadata list \<times> EnumsMap" where
  "extractColumns [] enumsMap = ([], enumsMap)"
| "extractColumns (property # properties) enumsMap =
     (let r = extractColumnFromProperty property enumsMap;
          rest = extractColumns properties (snd r)
      in ((case fst r of Some columnMetadata \<Rightarrow> [columnMetadata] | None \<Rightarrow> []) @ fst rest,
          snd rest))"

section \<open>ConstraintExtractor\<close>

definition extractColumnsFromArray :: "Node \<Rightarrow> string list" where
  "extractColumnsFromArray arrayLiteral =
     (case getKind arrayLiteral of
        ArrayLiteralExpression elements \<Rightarrow>
          concat (map (\<lambda>element.
            (case getKind element of
               StringLiteral \<Rightarrow> [stripQuotes (getText element)]
             | _ \<Rightarrow> [])) elements)
      | _ \<Rightarrow> [])"

definition indexTypes :: "string list" where
  "indexTypes = [''btree'', ''hash'', ''gist'', ''gin'']"

text \<open>One round of the \<open>switch\<close> of \<open>extractIndexOptions\<close>.\<close>

definition indexOption :: "string \<Rightarrow> Node \<Rightarrow> IndexMetadata \<Rightarrow> IndexMetadata" where
  "indexOption name initializer metadata =
     (let value = getText initializer
      in if name = ''unique'' then metadata\<lparr> i_isUnique := (value = ''true'') \<rparr>
         else if name = ''spatial'' then metadata\<lparr> i_isSpatial := Some (value = ''true'') \<rparr>
         else if name = ''fulltext'' then metadata\<lparr> i_isFulltext := Some (value = ''true'') \<rparr>
         else if name = ''where'' then metadata\<lparr> i_where := Some (stripQuotes value) \<rparr>
         else if name = ''using''
         then (let typeValue = toLowerCase (stripQuotes value)
               in if typeValue \<in> set indexTypes then metadata\<lparr> i_type := Some typeValue \<rparr>
                  else metadata)
         else metadata)"

fun indexOptions :: "ObjectLiteralElement list \<Rightarrow> IndexMetadata \<Rightarrow> IndexMetadata" where
  "indexOptions [] metadata = metadata"
| "indexOptions (PropertyAssignment name (Some initializer) # props) metadata =
     indexOptions props (indexOption name initializer metadata)"
| "indexOptions (prop # props) metadata = indexOptions props metadata"

text \<open>\<open>extractIndexOptions\<close> is called on object literals only.\<close>

definition extractIndexOptions :: "Node \<Rightarrow> IndexMetadata \<Rightarrow> IndexMetadata" where
  "extractIndexOptions options metadata =
     (case getKind options of
        ObjectLiteralExpression props \<Rightarrow> indexOptions props metadata
      | _ \<Rightarrow> metadata)"

definition emptyIndex :: IndexMetadata where
  "emptyIndex =
     \<lparr> i_name = None, i_columns = [], i_isUnique = False, i_isSpatial = None,
       i_isFulltext = None, i_where = None, i_type = None \<rparr>"

text \<open>
  The end of \<open>extractIndexFromDecorator\<close> for its first two cases: the options object at
  \<open>currentArgIndex\<close>, then the test of the column list.
\<close>

definition indexTail :: "Node list \<Rightarrow> nat \<Rightarrow> IndexMetadata \<Rightarrow> IndexMetadata option" where
  "indexTail args currentArgIndex metadata0 =
     (let metadata =
            (if length args > currentArgIndex
             then (let lastArg = args ! currentArgIndex
                   in case getKind lastArg of
                        ObjectLiteralExpression props \<Rightarrow> extractIndexOptions lastArg metadata0
                      | _ \<Rightarrow> metadata0)
             else metadata0)
      in if length (i_columns metadata) > 0 then Some metadata else None)"

definition extractIndexFromDecorator :: "Decorator \<Rightarrow> IndexMetadata option" where
  "extractIndexFromDecorator decorator =
     (let args = d_arguments decorator; metadata = emptyIndex
      in case args of
           [] \<Rightarrow> None
         | firstArg # others \<Rightarrow>
             (case getKind firstArg of
                ArrayLiteralExpression elements \<Rightarrow>
                  indexTail args 1 (metadata\<lparr> i_columns := extractColumnsFromArray firstArg \<rparr>)
              | StringLiteral \<Rightarrow>
                  (let metadata = metadata\<lparr> i_name := Some (stripQuotes (getText firstArg)) \<rparr>
                   in case others of
                        [] \<Rightarrow> indexTail args 1 metadata
                      | arg1 # rest2 \<Rightarrow>
                          (case getKind arg1 of
                             ArrayLiteralExpression elements1 \<Rightarrow>
                               indexTail args 2
                                 (metadata\<lparr> i_columns := extractColumnsFromArray arg1 \<rparr>)
                           | _ \<Rightarrow> indexTail args 1 metadata))
              | ObjectLiteralExpression props \<Rightarrow> Some (extractIndexOptions firstArg metadata)
              | _ \<Rightarrow> indexTail args 0 metadata))"

fun propertyIndexArguments :: "Node list \<Rightarrow> IndexMetadata \<Rightarrow> IndexMetadata" where
  "propertyIndexArguments [] metadata = metadata"
| "propertyIndexArguments (arg # args) metadata =
     (case getKind arg of
        StringLiteral \<Rightarrow>
          propertyIndexArguments args (metadata\<lparr> i_name := Some (stripQuotes (getText arg)) \<rparr>)
      | ObjectLiteralExpression props \<Rightarrow>
          propertyIndexArguments args (extractIndexOptions arg metadata)
      | _ \<Rightarrow> propertyIndexArguments args metadata)"

definition extractIndexFromPropertyDecorator :: "Decorator \<Rightarrow> string \<Rightarrow> IndexMetadata option" where
  "extractIndexFromPropertyDecorator decorator propertyName =
     Some (propertyIndexArguments (d_arguments decorator)
             (emptyIndex\<lparr> i_columns := [toSnakeCase propertyName] \<rparr>))"

text \<open>Pushing the result of an extraction when there is one.\<close>

definition pushed :: "'a option \<Rightarrow> 'a list" where
  "pushed r = (case r of Some x \<Rightarrow> [x] | None \<Rightarrow> [])"

definition named :: "string \<Rightarrow> Decorator list \<Rightarrow> Decorator list" where
  "named n ds = filter (\<lambda>d. d_name d = n) ds"

definition extractIndexes :: "ClassDeclaration \<Rightarrow> IndexMetadata list" where
  "extractIndexes classDecl =
     concat (map (\<lambda>decorator. pushed (extractIndexFromDecorator decorator))
               (named ''Index'' (cl_decorators classDecl)))
     @ concat (map (\<lambda>property.
         concat (map (\<lambda>decorator.
                   pushed (extractIndexFromPropertyDecorator decorator (p_name property)))
                   (named ''Index'' (p_decorators property))))
         (cl_properties classDecl))"

definition extractUniqueFromDecorator :: "Decorator \<Rightarrow> UniqueMetadata option" where
  "extractUniqueFromDecorator decorator =
     (case d_arguments decorator of
        [] \<Rightarrow> None
      | firstArg # others \<Rightarrow>
          (let metadata = \<lparr> u_name = None, u_columns = [] \<rparr>;
               metadata =
                 (case getKind firstArg of
                    ArrayLiteralExpression elements \<Rightarrow>
                      metadata\<lparr> u_columns := extractColumnsFromArray firstArg \<rparr>
                  | StringLiteral \<Rightarrow>
                      (let metadata = metadata\<lparr> u_name := Some (stripQuotes (getText firstArg)) \<rparr>
                       in case others of
                            [] \<Rightarrow> metadata
                          | arg1 # rest2 \<Rightarrow>
                              (case getKind arg1 of
                                 ArrayLiteralExpression elements1 \<Rightarrow>
                                   metadata\<lparr> u_columns := extractColumnsFromArray arg1 \<rparr>
                               | _ \<Rightarrow> metadata))
                  | _ \<Rightarrow> metadata)
           in if length (u_columns metadata) > 0 then Some metadata else None))"

definition extractUniques :: "ClassDeclaration \<Rightarrow> UniqueMetadata list" where
  "extractUniques classDecl =
     concat (map (\<lambda>decorator. pushed (extractUniqueFromDecorator decorator))
               (named ''Unique'' (cl_decorators classDecl)))"

definition extractCheckFromDecorator :: "Decorator \<Rightarrow> CheckMetadata option" where
  "extractCheckFromDecorator decorator =
     (case d_arguments decorator of
        [] \<Rightarrow> None
      | firstArg # others \<Rightarrow>
          (let metadata = \<lparr> k_name = None, k_expression = stripQuotes (getText firstArg) \<rparr>;
               metadata =
                 (case others of
                    [] \<Rightarrow> metadata
                  | secondArg # rest2 \<Rightarrow>
                      (case getKind secondArg of
                         StringLiteral \<Rightarrow>
                           metadata\<lparr> k_name := Some (stripQuotes (getText secondArg)) \<rparr>
                       | _ \<Rightarrow> metadata))
           in if truthy (k_expression metadata) then Some metadata else None))"

definition extractChecks :: "ClassDeclaration \<Rightarrow> CheckMetadata list" where
  "extractChecks classDecl =
     concat (map (\<lambda>decorator. pushed (extractCheckFromDecorator decorator))
               (named ''Check'' (cl_decorators classDecl)))"

section \<open>RelationExtractor\<close>

text \<open>
  \<open>bodyText.match(/\w+\.(\w+)/)\<close>: the leftmost match ends its first run of word characters
  at the first dot that stands between two word characters, and the group is the longest run
  of word characters after that dot. \<open>prev\<close> tells whether the character before is a word
  character.
\<close>

fun memberAccess :: "bool \<Rightarrow> string \<Rightarrow> string option" where
  "memberAccess prev [] = None"
| "memberAccess prev (c # cs) =
     (if prev \<and> c = CHR ''.'' \<and> takeWhile isWordChar cs \<noteq> []
      then Some (takeWhile isWordChar cs)
      else memberAccess (isWordChar c) cs)"

text \<open>The loop over the options of a relation annotation.\<close>

fun relationOptions :: "ObjectLiteralElement list \<Rightarrow> string option \<times> string option \<Rightarrow> string option \<times> string option" where
  "relationOptions [] acc = acc"
| "relationOptions (PropertyAssignment name (Some initializer) # props) acc =
     (let value = stripQuotes (getText initializer)
      in relationOptions props
           (if name = ''onDelete'' then (Some (toUpperCase value), snd acc)
            else if name = ''onUpdate'' then (fst acc, Some (toUpperCase value))
            else acc))"
| "relationOptions (prop # props) acc = relationOptions props acc"

record RelationArguments =
  a_target :: string
  a_inverseSide :: "string option"
  a_onDelete :: "string option"
  a_onUpdate :: "string option"

definition extractRelationArguments :: "Decorator \<Rightarrow> RelationArguments" where
  "extractRelationArguments decorator =
     (let args = d_arguments decorator;
          target =
            (case args of
               [] \<Rightarrow> ''Unknown''
             | firstArg # others \<Rightarrow>
                 (case getKind firstArg of
                    ArrowFunction body \<Rightarrow> body
                  | _ \<Rightarrow> getText firstArg));
          inverseSide =
            (if length args > 1
             then (case getKind (args ! 1) of
                     ArrowFunction bodyText \<Rightarrow> memberAccess False bodyText
                   | _ \<Rightarrow> None)
             else None);
          actions =
            (if length args > 2
             then (case getKind (args ! 2) of
                     ObjectLiteralExpression props \<Rightarrow> relationOptions props (None, None)
                   | _ \<Rightarrow> (None, None))
             else (None, None))
      in \<lparr> a_target = target, a_inverseSide = inverseSide,
           a_onDelete = fst actions, a_onUpdate = snd actions \<rparr>)"

text \<open>The loop of \<open>extractJoinColumn\<close> and of \<open>extractSingleJoinColumn\<close>.\<close>

fun joinColumnOptions :: "ObjectLiteralElement list \<Rightarrow> JoinColumnMetadata \<Rightarrow> JoinColumnMetadata" where
  "joinColumnOptions [] joinColumn = joinColumn"
| "joinColumnOptions (PropertyAssignment name (Some initializer) # props) joinColumn =
     (let value = stripQuotes (getText initializer)
      in joinColumnOptions props
           (if name = ''name'' then joinColumn\<lparr> jc_name := Some value \<rparr>
            else if name = ''referencedColumnName''
            then joinColumn\<lparr> jc_referencedColumnName := Some value \<rparr>
            else joinColumn))"
| "joinColumnOptions (prop # props) joinColumn = joinColumnOptions props joinColumn"

definition emptyJoinColumn :: JoinColumnMetadata where
  "emptyJoinColumn = \<lparr> jc_name = None, jc_referencedColumnName = None \<rparr>"

definition extractJoinColumn :: "Decorator \<Rightarrow> JoinColumnMetadata" where
  "extractJoinColumn decorator =
     (case d_arguments decorator of
        [] \<Rightarrow> emptyJoinColumn
      | firstArg # others \<Rightarrow>
          (case getKind firstArg of
             ObjectLiteralExpression props \<Rightarrow> joinColumnOptions props emptyJoinColumn
           | _ \<Rightarrow> emptyJoinColumn))"

definition extractSingleJoinColumn :: "ObjectLiteralElement list \<Rightarrow> JoinColumnMetadata" where
  "extractSingleJoinColumn props = joinColumnOptions props emptyJoinColumn"

definition extractJoinColumns :: "Node \<Rightarrow> JoinColumnMetadata list" where
  "extractJoinColumns initializer =
     (case getKind initializer of
        ArrayLiteralExpression elements \<Rightarrow>
          concat (map (\<lambda>element.
            (case getKind element of
               ObjectLiteralExpression props \<Rightarrow> [extractSingleJoinColumn props]
             | _ \<Rightarrow> [])) elements)
      | ObjectLiteralExpression props \<Rightarrow> [extractSingleJoinColumn props]
      | _ \<Rightarrow> [])"

fun joinTableOptions :: "ObjectLiteralElement list \<Rightarrow> JoinTableMetadata \<Rightarrow> JoinTableMetadata" where
  "joinTableOptions [] joinTable = joinTable"
| "joinTableOptions (PropertyAssignment name (Some initializer) # props) joinTable =
     joinTableOptions props
       (if name = ''name'' then joinTable\<lparr> jt_name := Some (stripQuotes (getText initializer)) \<rparr>
        else if name = ''joinColumn'' \<or> name = ''joinColumns''
        then joinTable\<lparr> jt_joinColumns := Some (extractJoinColumns initializer) \<rparr>
        else if name = ''inverseJoinColumn'' \<or> name = ''inverseJoinColumns''
        then joinTable\<lparr> jt_inverseJoinColumns := Some (extractJoinColumns initializer) \<rparr>
        else joinTable)"
| "joinTableOptions (prop # props) joinTable = joinTableOptions props joinTable"

definition emptyJoinTable :: JoinTableMetadata where
  "emptyJoinTable = \<lparr> jt_name = None, jt_joinColumns = Some [], jt_inverseJoinColumns = Some [] \<rparr>"

definition extractJoinTable :: "Decorator \<Rightarrow> string \<Rightarrow> string \<Rightarrow> JoinTableMetadata" where
  "extractJoinTable decorator propertyName targetEntity =
     (case d_arguments decorator of
        [] \<Rightarrow> emptyJoinTable
      | firstArg # others \<Rightarrow>
          (case getKind firstArg of
             ObjectLiteralExpression props \<Rightarrow> joinTableOptions props emptyJoinTable
           | _ \<Rightarrow> emptyJoinTable))"

definition relationDecoratorNames :: "string list" where
  "relationDecoratorNames = [''OneToOne'', ''ManyToOne'', ''OneToMany'', ''ManyToMany'']"

definition relationTypeOf :: "string \<Rightarrow> RelationType option" where
  "relationTypeOf decoratorName =
     (if decoratorName = ''OneToOne'' then Some OneToOne
      else if decoratorName = ''ManyToOne'' then Some ManyToOne
      else if decoratorName = ''OneToMany'' then Some OneToMany
      else if decoratorName = ''ManyToMany'' then Some ManyToMany
      else None)"

definition extractRelationFromProperty :: "PropertyDeclaration \<Rightarrow> RelationMetadata option" where
  "extractRelationFromProperty property =
     (let decorators = p_decorators property
      in case find (\<lambda>d. d_name d \<in> set relationDecoratorNames) decorators of
           None \<Rightarrow> None
         | Some relationDecorator \<Rightarrow>
             (case relationTypeOf (d_name relationDecorator) of
                None \<Rightarrow> None
              | Some type \<Rightarrow>
                  (let propertyName = p_name property;
                       ra = extractRelationArguments relationDecorator;
                       metadata =
                         \<lparr> r_propertyName = propertyName,
                           r_type = type,
                           r_target = a_target ra,
                           r_inverseSide = a_inverseSide ra,
                           r_joinColumn = None,
                           r_joinTable = None,
                           r_onDelete = a_onDelete ra,
                           r_onUpdate = a_onUpdate ra \<rparr>;
                       metadata =
                         (if type = OneToOne \<or> type = ManyToOne
                          then (case find (\<lambda>d. d_name d = ''JoinColumn'') decorators of
                                  Some joinColumnDecorator \<Rightarrow>
                                    metadata\<lparr> r_joinColumn := Some (extractJoinColumn joinColumnDecorator) \<rparr>
                                | None \<Rightarrow>
                                    metadata\<lparr> r_joinColumn :=
                                      Some \<lparr> jc_name = Some (toSnakeCase propertyName @ ''_id''),
                                             jc_referencedColumnName = Some ''id'' \<rparr> \<rparr>)
                          else metadata);
                       metadata =
                         (if type = ManyToMany
                          then (case find (\<lambda>d. d_name d = ''JoinTable'') decorators of
                                  Some joinTableDecorator \<Rightarrow>
                                    metadata\<lparr> r_joinTable :=
                                      Some (extractJoinTable joinTableDecorator propertyName
                                              (a_target ra)) \<rparr>
                                | None \<Rightarrow> metadata)
                          else metadata)
                   in Some metadata)))"

definition extractRelations :: "ClassDeclaration \<Rightarrow> RelationMetadata list" where
  "extractRelations classDecl =
     concat (map (\<lambda>property. pushed (extractRelationFromProperty property))
               (cl_properties classDecl))"

section \<open>MetadataExtractor\<close>

text \<open>
  \<open>MetadataExtractor\<close> does not name the syntax kinds as the other extractors do: it compares
  \<open>getKind()\<close> with the numbers 40, 206 and 296 and calls \<open>asKind(206)\<close>. Beside them it
  has the comments \<open>StringLiteral\<close>, \<open>ObjectLiteralExpression\<close> and \<open>PropertyAssignment\<close>,
  but these are not the numbers of those kinds in the parser library, and no argument of an
  annotation and no element of an object literal has a kind with one of these numbers:
  every one of these comparisons is false and \<open>asKind(206)\<close> is always undefined. So the
  table name of an entity is always the snake-case form of its class name, whatever its
  \<open>Entity\<close> annotation says, and no entity has a schema or inheritance metadata.
\<close>

definition hasKindNumber :: "nat \<Rightarrow> Node \<Rightarrow> bool" where
  "hasKindNumber number node = False"

definition elementHasKindNumber :: "nat \<Rightarrow> ObjectLiteralElement \<Rightarrow> bool" where
  "elementHasKindNumber number element = False"

definition asKindNumber :: "nat \<Rightarrow> Node \<Rightarrow> Node option" where
  "asKindNumber number node = (if hasKindNumber number node then Some node else None)"

text \<open>The properties of the node that \<open>asKind(206)\<close> gives.\<close>

definition propertiesOf :: "Node \<Rightarrow> ObjectLiteralElement list" where
  "propertiesOf node = (case getKind node of ObjectLiteralExpression props \<Rightarrow> props | _ \<Rightarrow> [])"

fun entityOptions :: "ObjectLiteralElement list \<Rightarrow> string \<times> string option \<Rightarrow> string \<times> string option" where
  "entityOptions [] acc = acc"
| "entityOptions (prop # props) acc =
     entityOptions props
       (if elementHasKindNumber 296 prop
        then (case prop of
                PropertyAssignment name (Some init) \<Rightarrow>
                  (if name = ''name'' then (stripQuotes (getText init), snd acc)
                   else if name = ''schema'' then (fst acc, Some (stripQuotes (getText init)))
                   else acc)
              | _ \<Rightarrow> acc)
        else acc)"

record EntityDecoratorInfo =
  ed_tableName :: string
  ed_schema :: "string option"
  ed_note :: "string option"

definition className :: "ClassDeclaration \<Rightarrow> string" where
  "className classDecl = orElse (cl_name classDecl) ''Unknown''"

definition extractEntityDecorator :: "ClassDeclaration \<Rightarrow> EntityDecoratorInfo" where
  "extractEntityDecorator classDecl =
     (let tableName = toSnakeCase (className classDecl);
          named0 =
            (case find (\<lambda>d. d_name d = ''Entity'') (cl_decorators classDecl) of
               None \<Rightarrow> (tableName, None)
             | Some entityDecorator \<Rightarrow>
                 (case d_arguments entityDecorator of
                    [] \<Rightarrow> (tableName, None)
                  | firstArg # others \<Rightarrow>
                      (if hasKindNumber 40 firstArg
                       then (stripQuotes (getText firstArg), None)
                       else if hasKindNumber 206 firstArg
                       then (case asKindNumber 206 firstArg of
                               Some obj \<Rightarrow> entityOptions (propertiesOf obj) (tableName, None)
                             | None \<Rightarrow> (tableName, None))
                       else (tableName, None))))
      in \<lparr> ed_tableName = fst named0, ed_schema = snd named0,
           ed_note = firstJsDocComment (cl_jsDocs classDecl) \<rparr>)"

fun inheritanceOptions :: "ObjectLiteralElement list \<Rightarrow> string \<times> string option \<Rightarrow> string \<times> string option" where
  "inheritanceOptions [] acc = acc"
| "inheritanceOptions (prop # props) acc =
     inheritanceOptions props
       (if elementHasKindNumber 296 prop
        then (case prop of
                PropertyAssignment name (Some init) \<Rightarrow>
                  (if name = ''pattern'' then (stripQuotes (getText init), snd acc)
                   else if name = ''column'' then (fst acc, Some (stripQuotes (getText init)))
                   else acc)
              | _ \<Rightarrow> acc)
        else acc)"

definition extractInheritance :: "ClassDeclaration \<Rightarrow> InheritanceMetadata option" where
  "extractInheritance classDecl =
     (case find (\<lambda>d. d_name d = ''TableInheritance'') (cl_decorators classDecl) of
        None \<Rightarrow> None
      | Some inheritanceDecorator \<Rightarrow>
          (case d_arguments inheritanceDecorator of
             [] \<Rightarrow> None
           | arg0 # others \<Rightarrow>
               (case asKindNumber 206 arg0 of
                  None \<Rightarrow> None
                | Some options \<Rightarrow>
                    (let pc = inheritanceOptions (propertiesOf options) (''STI'', None);
                         discriminatorValue =
                           (case find (\<lambda>d. d_name d = ''ChildEntity'') (cl_decorators classDecl) of
                              None \<Rightarrow> None
                            | Some childDecorator \<Rightarrow>
                                (case d_arguments childDecorator of
                                   [] \<Rightarrow> None
                                 | childArg # others2 \<Rightarrow> Some (stripQuotes (getText childArg))))
                     in Some \<lparr> h_pattern = fst pc, h_discriminatorColumn = snd pc,
                               h_discriminatorValue = discriminatorValue \<rparr>))))"

text \<open>
  The extractor object: its sub-extractors have no fields, its registry of enums is created
  by the constructor and written by every column extraction.
\<close>

record MetadataExtractor =
  enumsMap :: EnumsMap

definition newMetadataExtractor :: MetadataExtractor where
  "newMetadataExtractor = \<lparr> enumsMap = [] \<rparr>"

definition extractEntityMetadata :: "MetadataExtractor \<Rightarrow> ClassDeclaration \<Rightarrow> EntityMetadata \<times> MetadataExtractor" where
  "extractEntityMetadata this classDecl =
     (let info = extractEntityDecorator classDecl;
          cols = extractColumns (cl_properties classDecl) (enumsMap this)
      in (\<lparr> e_name = className classDecl,
            e_tableName = ed_tableName info,
            e_schema = ed_schema info,
            e_columns = fst cols,
            e_relations = extractRelations classDecl,
            e_indexes = extractIndexes classDecl,
            e_checks = extractChecks classDecl,
            e_uniques = extractUniques classDecl,
            e_note = ed_note info,
            e_inheritance = extractInheritance classDecl \<rparr>,
          this\<lparr> enumsMap := snd cols \<rparr>))"

text \<open>The first pass of \<open>extractMetadata\<close>.\<close>

fun firstPass :: "MetadataExtractor \<Rightarrow> ClassDeclaration list \<Rightarrow> EntityMetadata list \<times> MetadataExtractor" where
  "firstPass this [] = ([], this)"
| "firstPass this (entity # rest) =
     (let r = extractEntityMetadata this entity;
          rs = firstPass (snd r) rest
      in (fst r # fst rs, snd rs))"

text \<open>
  The second pass. The lookup is filled from every entity before any target is rewritten;
  a target is rewritten when the lookup gives a truthy table name.
\<close>

definition classToTable :: "EntityMetadata list \<Rightarrow> (string \<times> string) list" where
  "classToTable ents = foldl (\<lambda>m e. mapSet m (e_name e) (e_tableName e)) [] ents"

definition resolveRelation :: "(string \<times> string) list \<Rightarrow> RelationMetadata \<Rightarrow> RelationMetadata" where
  "resolveRelation lookup relation =
     (case mapGet lookup (r_target relation) of
        Some targetTable \<Rightarrow>
          (if truthy targetTable then relation\<lparr> r_target := targetTable \<rparr> else relation)
      | None \<Rightarrow> relation)"

definition resolveRelationships :: "EntityMetadata list \<Rightarrow> EntityMetadata list" where
  "resolveRelationships ents =
     (let lookup = classToTable ents
      in map (\<lambda>entity. entity\<lparr> e_relations := map (resolveRelation lookup) (e_relations entity) \<rparr>)
           ents)"

text \<open>\<open>extractJoinTables\<close> walks the relations and pushes nothing.\<close>

definition extractJoinTables :: "EntityMetadata list \<Rightarrow> JoinTableEntity list" where
  "extractJoinTables ents = []"

definition extractMetadata :: "MetadataExtractor \<Rightarrow> ClassDeclaration list \<Rightarrow> DBMLSchema \<times> MetadataExtractor" where
  "extractMetadata this ents =
     (let p1 = firstPass this ents;
          entityMetadata = resolveRelationships (fst p1);
          this = snd p1
      in (\<lparr> entities = entityMetadata,
            enums = mapValues (enumsMap this),
            joinTables = extractJoinTables entityMetadata \<rparr>,
          this))"

text \<open>
  The public interface after parsing: \<open>generateSchema\<close> and \<open>generateDBML\<close> construct a new
  extractor for every call.
\<close>

definition generateSchema :: "ClassDeclaration list \<Rightarrow> DBMLSchema" where
  "generateSchema ents = fst (extractMetadata newMetadataExtractor ents)"

definition generateDBML :: "Prototype \<Rightarrow> GeneratorOptions option \<Rightarrow> ClassDeclaration list \<Rightarrow> string" where
  "generateDBML proto options ents =
     generate proto (newDBMLGenerator options)
       (fst (extractMetadata newMetadataExtractor ents))"

section \<open>Example inputs\<close>

definition defaultOptions :: RequiredOptions where
  "defaultOptions = requiredOptions None"

definition plainColumn :: ColumnMetadata where
  "plainColumn =
     \<lparr> c_propertyName = ''value'', c_columnName = ''value'', c_type = ''varchar'',
       c_isPrimary = False, c_isGenerated = False, c_generationStrategy = None,
       c_isNullable = True, c_isUnique = False, c_length = None, c_precision = None,
       c_scale = None, c_default = None, c_enumName = None, c_enumValues = None,
       c_isArray = None, c_isCreateDate = Some False, c_isUpdateDate = Some False,
       c_isDeleteDate = Some False, c_isVersion = Some False, c_comment = None \<rparr>"

text \<open>\<open>@Column({ type: 'enum', enum: UserRole, array: true }) roles: UserRole[]\<close>, extracted.\<close>

definition enumArrayColumn :: ColumnMetadata where
  "enumArrayColumn =
     plainColumn\<lparr> c_propertyName := ''roles'', c_columnName := ''roles'', c_type := ''user_role'',
       c_enumName := Some ''user_role'', c_enumValues := Some [''admin'', ''user''],
       c_isArray := Some True \<rparr>"

text \<open>\<open>@CreateDateColumn({ default: '2000-01-01' }) createdAt: Date\<close>, extracted.\<close>

definition createdAtColumn :: ColumnMetadata where
  "createdAtColumn =
     plainColumn\<lparr> c_propertyName := ''createdAt'', c_columnName := ''created_at'',
       c_type := ''timestamp'', c_isNullable := False, c_default := Some ''2000-01-01'',
       c_isCreateDate := Some True \<rparr>"

text \<open>
  Syntax nodes as the parser gives them for literals written in the usual way: the source
  text of a string literal keeps its quotes.
\<close>

definition quoted :: "string \<Rightarrow> string" where
  "quoted s = [sq] @ s @ [sq]"

definition stringLiteral :: "string \<Rightarrow> Node" where
  "stringLiteral s = Node StringLiteral (quoted s) None"

definition objectLiteral :: "(string \<times> Node) list \<Rightarrow> Node" where
  "objectLiteral kvs =
     Node (ObjectLiteralExpression (map (\<lambda>kv. PropertyAssignment (fst kv) (Some (snd kv))) kvs))
       (''{ '' @ join '', '' (map (\<lambda>kv. fst kv @ '': '' @ getText (snd kv)) kvs) @ '' }'')
       None"

definition arrayLiteral :: "Node list \<Rightarrow> Node" where
  "arrayLiteral elements =
     Node (ArrayLiteralExpression elements) (''['' @ join '', '' (map getText elements) @ '']'') None"

definition arrow :: "string \<Rightarrow> string \<Rightarrow> Node" where
  "arrow params body = Node (ArrowFunction body) (params @ '' => '' @ body) None"

definition keyword :: "string \<Rightarrow> Node" where
  "keyword s = Node OtherKind s None"

text \<open>\<open>@PrimaryGeneratedColumn({ name: 'user_id' }) id: number\<close>\<close>

definition idColumnWithOptions :: PropertyDeclaration where
  "idColumnWithOptions =
     \<lparr> p_name = ''id'',
       p_decorators =
         [\<lparr> d_name = ''PrimaryGeneratedColumn'',
            d_arguments = [objectLiteral [(''name'', stringLiteral ''user_id'')]] \<rparr>],
       p_type = ''number'',
       p_jsDocs = [] \<rparr>"

text \<open>
  A one-to-one relationship between two entities; \<open>UserProfile.user\<close> carries the join column:
  \<^verbatim>\<open>
  @Entity() class User {
    @OneToOne(() => UserProfile, (profile) => profile.user) profile: UserProfile; }
  @Entity() class UserProfile {
    @OneToOne(() => User, (user) => user.profile) @JoinColumn() user: User; }
  \<close>
\<close>

definition profileProperty :: PropertyDeclaration where
  "profileProperty =
     \<lparr> p_name = ''profile'',
       p_decorators =
         [\<lparr> d_name = ''OneToOne'',
            d_arguments = [arrow ''()'' ''UserProfile'', arrow ''(profile)'' ''profile.user''] \<rparr>],
       p_type = ''UserProfile'',
       p_jsDocs = [] \<rparr>"

definition userProperty :: PropertyDeclaration where
  "userProperty =
     \<lparr> p_name = ''user'',
       p_decorators =
         [\<lparr> d_name = ''OneToOne'',
            d_arguments = [arrow ''()'' ''User'', arrow ''(user)'' ''user.profile''] \<rparr>,
          \<lparr> d_name = ''JoinColumn'', d_arguments = [] \<rparr>],
       p_type = ''User'',
       p_jsDocs = [] \<rparr>"

definition userClass :: ClassDeclaration where
  "userClass =
     \<lparr> cl_name = Some ''User'',
       cl_decorators = [\<lparr> d_name = ''Entity'', d_arguments = [] \<rparr>],
       cl_properties = [profileProperty],
       cl_jsDocs = [] \<rparr>"

definition userProfileClass :: ClassDeclaration where
  "userProfileClass =
     \<lparr> cl_name = Some ''UserProfile'',
       cl_decorators = [\<lparr> d_name = ''Entity'', d_arguments = [] \<rparr>],
       cl_properties = [userProperty],
       cl_jsDocs = [] \<rparr>"

text \<open>
  The keys that the options of an annotation assign: the names of the property assignments
  of its object-literal arguments.
\<close>

fun assignedKeys :: "ObjectLiteralElement list \<Rightarrow> string list" where
  "assignedKeys [] = []"
| "assignedKeys (PropertyAssignment name (Some initializer) # props) = name # assignedKeys props"
| "assignedKeys (prop # props) = assignedKeys props"

fun optionKeys :: "Node list \<Rightarrow> string list" where
  "optionKeys [] = []"
| "optionKeys (arg # args) =
     (case getKind arg of
        ObjectLiteralExpression props \<Rightarrow> assignedKeys props @ optionKeys args
      | _ \<Rightarrow> optionKeys args)"

text \<open>The four special-role flags of a column.\<close>

definition specialRoles :: "ColumnMetadata \<Rightarrow> bool option list" where
  "specialRoles column =
     [c_isCreateDate column, c_isUpdateDate column, c_isDeleteDate column, c_isVersion column]"

text \<open>\<open>@CreateDateColumn({ type: 'timestamptz', nullable: true }) createdAt: Date\<close>\<close>

definition createdAtWithOptions :: PropertyDeclaration where
  "createdAtWithOptions =
     \<lparr> p_name = ''createdAt'',
       p_decorators =
         [\<lparr> d_name = ''CreateDateColumn'',
            d_arguments =
              [objectLiteral
                 [(''type'', stringLiteral ''timestamptz''), (''nullable'', keyword ''true'')]] \<rparr>],
       p_type = ''Date'',
       p_jsDocs = [] \<rparr>"

text \<open>\<open>@CreateDateColumn({ name: 'created' }) createdAt: string\<close> and its column.\<close>

definition createDateDecorator :: Decorator where
  "createDateDecorator =
     \<lparr> d_name = ''CreateDateColumn'',
       d_arguments = [objectLiteral [(''name'', stringLiteral ''created'')]] \<rparr>"

definition createdAtProperty :: PropertyDeclaration where
  "createdAtProperty =
     \<lparr> p_name = ''createdAt'', p_decorators = [createDateDecorator], p_type = ''string'',
       p_jsDocs = [] \<rparr>"

definition createdColumn :: ColumnMetadata where
  "createdColumn =
     plainColumn\<lparr> c_propertyName := ''createdAt'', c_columnName := ''created'',
       c_type := ''timestamp'', c_isNullable := False, c_isCreateDate := Some True \<rparr>"

text \<open>\<open>@VersionColumn() version: string\<close> and its column.\<close>

definition versionDecorator :: Decorator where
  "versionDecorator = \<lparr> d_name = ''VersionColumn'', d_arguments = [] \<rparr>"

definition versionProperty :: PropertyDeclaration where
  "versionProperty =
     \<lparr> p_name = ''version'', p_decorators = [versionDecorator], p_type = ''string'',
       p_jsDocs = [] \<rparr>"

definition versionColumn :: ColumnMetadata where
  "versionColumn =
     plainColumn\<lparr> c_propertyName := ''version'', c_columnName := ''version'',
       c_type := ''integer'', c_isNullable := False, c_isVersion := Some True \<rparr>"

text \<open>
  Index annotations: \<open>@Index({ columns: ['a'], unique: true })\<close>, and the arguments
  \<open>['a', 'b']\<close>, \<open>'idx_name'\<close> and \<open>{ unique: true }\<close>.
\<close>

definition indexOptionsOnly :: Decorator where
  "indexOptionsOnly =
     \<lparr> d_name = ''Index'',
       d_arguments =
         [objectLiteral [(''columns'', arrayLiteral [stringLiteral ''a'']),
                         (''unique'', keyword ''true'')]] \<rparr>"

definition abColumns :: Node where
  "abColumns = arrayLiteral [stringLiteral ''a'', stringLiteral ''b'']"

definition idxName :: Node where
  "idxName = stringLiteral ''idx_name''"

definition uniqueOption :: Node where
  "uniqueOption = objectLiteral [(''unique'', keyword ''true'')]"

text \<open>
  The enums that the entities of a batch refer to: for every property with a column
  annotation, the enum declarations that the \<open>enum\<close> options of that annotation resolve to,
  under their snake-case names and with their values.
\<close>

definition enumValuesOf :: "EnumMember list \<Rightarrow> string list" where
  "enumValuesOf members =
     map (\<lambda>member. (case m_initializer member of
                        Some initializer \<Rightarrow> stripQuotes initializer
                      | None \<Rightarrow> m_name member)) members"

definition enumOfNode :: "Node \<Rightarrow> EnumMetadata list" where
  "enumOfNode initializer =
     (case getSymbol initializer of
        None \<Rightarrow> []
      | Some symbol \<Rightarrow>
          (case s_declarations symbol of
             EnumDeclaration members # others \<Rightarrow>
               [\<lparr> en_name = toSnakeCase (s_name symbol), en_values = enumValuesOf members \<rparr>]
           | _ \<Rightarrow> []))"

fun enumsOfOptions :: "ObjectLiteralElement list \<Rightarrow> EnumMetadata list" where
  "enumsOfOptions [] = []"
| "enumsOfOptions (PropertyAssignment name (Some initializer) # props) =
     (if name = ''enum'' then enumOfNode initializer else []) @ enumsOfOptions props"
| "enumsOfOptions (prop # props) = enumsOfOptions props"

fun enumsOfArguments :: "Node list \<Rightarrow> EnumMetadata list" where
  "enumsOfArguments [] = []"
| "enumsOfArguments (arg # args) =
     (case getKind arg of
        ObjectLiteralExpression props \<Rightarrow> enumsOfOptions props @ enumsOfArguments args
      | _ \<Rightarrow> enumsOfArguments args)"

definition enumsOfProperty :: "PropertyDeclaration \<Rightarrow> EnumMetadata list" where
  "enumsOfProperty property =
     (case find (\<lambda>d. d_name d \<in> set columnDecoratorNames) (p_decorators property) of
        None \<Rightarrow> []
      | Some columnDecorator \<Rightarrow> enumsOfArguments (d_arguments columnDecorator))"

definition referencedEnums :: "ClassDeclaration list \<Rightarrow> EnumMetadata list" where
  "referencedEnums ents =
     concat (map (\<lambda>classDecl. concat (map enumsOfProperty (cl_properties classDecl))) ents)"

text \<open>The table name of every entity of a schema with the targets of its relations.\<close>

definition tablesAndTargets :: "DBMLSchema \<Rightarrow> (string \<times> string list) list" where
  "tablesAndTargets schema =
     map (\<lambda>entity. (e_tableName entity, map r_target (e_relations entity))) (entities schema)"

text \<open>
  An entity with an enum column:
  \<^verbatim>\<open>
  enum UserRole { ADMIN = 'admin', USER = 'user' }
  @Entity() class Account { @Column({ type: 'enum', enum: UserRole }) role: UserRole; }
  \<close>
\<close>

definition userRoleSymbol :: Symbol where
  "userRoleSymbol =
     \<lparr> s_name = ''UserRole'',
       s_declarations =
         [EnumDeclaration
            [\<lparr> m_name = ''ADMIN'', m_initializer = Some (quoted ''admin'') \<rparr>,
             \<lparr> m_name = ''USER'', m_initializer = Some (quoted ''user'') \<rparr>]] \<rparr>"

definition accountClass :: ClassDeclaration where
  "accountClass =
     \<lparr> cl_name = Some ''Account'',
       cl_decorators = [\<lparr> d_name = ''Entity'', d_arguments = [] \<rparr>],
       cl_properties =
         [\<lparr> p_name = ''role'',
            p_decorators =
              [\<lparr> d_name = ''Column'',
                 d_arguments =
                   [objectLiteral
                      [(''type'', stringLiteral ''enum''),
                       (''enum'', Node OtherKind ''UserRole'' (Some userRoleSymbol))]] \<rparr>],
            p_type = ''UserRole'',
            p_jsDocs = [] \<rparr>],
       cl_jsDocs = [] \<rparr>"

text \<open>
  Two entities that refer to each other, the one that refers forward declared first:
  \<^verbatim>\<open>
  @Entity('orders') class Order { @ManyToOne(() => Customer) customer: Customer; }
  @Entity('customers') class Customer {
    @OneToMany(() => Order, (order) => order.customer) orders: Order[]; }
  \<close>
\<close>

definition orderClass :: ClassDeclaration where
  "orderClass =
     \<lparr> cl_name = Some ''Order'',
       cl_decorators = [\<lparr> d_name = ''Entity'', d_arguments = [stringLiteral ''orders''] \<rparr>],
       cl_properties =
         [\<lparr> p_name = ''customer'',
            p_decorators =
              [\<lparr> d_name = ''ManyToOne'', d_arguments = [arrow ''()'' ''Customer''] \<rparr>],
            p_type = ''Customer'',
            p_jsDocs = [] \<rparr>],
       cl_jsDocs = [] \<rparr>"

definition customerClass :: ClassDeclaration where
  "customerClass =
     \<lparr> cl_name = Some ''Customer'',
       cl_decorators = [\<lparr> d_name = ''Entity'', d_arguments = [stringLiteral ''customers''] \<rparr>],
       cl_properties =
         [\<lparr> p_name = ''orders'',
            p_decorators =
              [\<lparr> d_name = ''OneToMany'',
                 d_arguments = [arrow ''()'' ''Order'', arrow ''(order)'' ''order.customer''] \<rparr>],
            p_type = ''Order[]'',
            p_jsDocs = [] \<rparr>],
       cl_jsDocs = [] \<rparr>"

text \<open>
  The same two entities with the first class named \<open>_\<close>, whose snake-case form is empty:
  \<^verbatim>\<open>
  @Entity() class _ { @ManyToOne(() => Holder) holder: Holder; }
  @Entity() class Holder { @OneToMany(() => _, (item) => item.holder) items: _[]; }
  \<close>
\<close>

definition underscoreClass :: ClassDeclaration where
  "underscoreClass =
     \<lparr> cl_name = Some ''_'',
       cl_decorators = [\<lparr> d_name = ''Entity'', d_arguments = [] \<rparr>],
       cl_properties =
         [\<lparr> p_name = ''holder'',
            p_decorators =
              [\<lparr> d_name = ''ManyToOne'', d_arguments = [arrow ''()'' ''Holder''] \<rparr>],
            p_type = ''Holder'',
            p_jsDocs = [] \<rparr>],
       cl_jsDocs = [] \<rparr>"

definition holderClass :: ClassDeclaration where
  "holderClass =
     \<lparr> cl_name = Some ''Holder'',
       cl_decorators = [\<lparr> d_name = ''Entity'', d_arguments = [] \<rparr>],
       cl_properties =
         [\<lparr> p_name = ''items'',
            p_decorators =
              [\<lparr> d_name = ''OneToMany'',
                 d_arguments = [arrow ''()'' ''_'', arrow ''(item)'' ''item.holder''] \<rparr>],
            p_type = ''_[]'',
            p_jsDocs = [] \<rparr>],
       cl_jsDocs = [] \<rparr>"

text \<open>
  The metadata of \<open>Customer\<close> after the first pass, and of an entity \<open>Invoice\<close> whose
  relation targets a class \<open>Vendor\<close> that is not in the batch.
\<close>

definition customerEntity :: EntityMetadata where
  "customerEntity =
     \<lparr> e_name = ''Customer'', e_tableName = ''customer'', e_schema = None, e_columns = [],
       e_relations =
         [\<lparr> r_propertyName = ''orders'', r_type = OneToMany, r_target = ''Order'',
            r_inverseSide = Some ''customer'', r_joinColumn = None, r_joinTable = None,
            r_onDelete = None, r_onUpdate = None \<rparr>],
       e_indexes = [], e_checks = [], e_uniques = [], e_note = None, e_inheritance = None \<rparr>"

definition vendorRelation :: RelationMetadata where
  "vendorRelation =
     \<lparr> r_propertyName = ''vendor'', r_type = ManyToOne, r_target = ''Vendor'',
       r_inverseSide = None,
       r_joinColumn = Some \<lparr> jc_name = Some ''vendor_id'', jc_referencedColumnName = Some ''id'' \<rparr>,
       r_joinTable = None, r_onDelete = Some ''SET NULL'', r_onUpdate = None \<rparr>"

definition invoiceEntity :: EntityMetadata where
  "invoiceEntity =
     \<lparr> e_name = ''Invoice'', e_tableName = ''invoice'', e_schema = None, e_columns = [],
       e_relations = [vendorRelation],
       e_indexes = [], e_checks = [], e_uniques = [], e_note = None, e_inheritance = None \<rparr>"

definition invoiceSchema :: DBMLSchema where
  "invoiceSchema =
     \<lparr> entities = resolveRelationships [invoiceEntity, customerEntity], enums = [],
       joinTables = [] \<rparr>"









section \<open>Properties of strings\<close>

lemma includesStr_append: "includesStr (xs @ s @ ys) s"
proof (induction xs)
  case Nil
  have "startsWith (s @ ys) s"
    by (induction s) auto
  then show ?case
    by (cases "s @ ys") auto
next
  case (Cons a xs)
  then show ?case
    by simp
qed

lemma join_Cons: "ys \<noteq> [] \<Longrightarrow> join sep (x # ys) = x @ sep @ join sep ys"
  by (cases ys) auto

lemma join_split: "\<exists>p q. join sep (pre @ [a, b] @ post) = p @ a @ sep @ b @ q"
proof (induction pre)
  case Nil
  show ?case
  proof (cases post)
    case Nil
    then show ?thesis
      by (intro exI[of _ "[]"]) auto
  next
    case (Cons c cs)
    then show ?thesis
      by (intro exI[of _ "[]"] exI[of _ "sep @ join sep (c # cs)"]) auto
  qed
next
  case (Cons x pre)
  then obtain p q where pq: "join sep (pre @ [a, b] @ post) = p @ a @ sep @ b @ q"
    by blast
  have "join sep ((x # pre) @ [a, b] @ post) = x @ sep @ join sep (pre @ [a, b] @ post)"
    by (simp add: join_Cons)
  then show ?case
    using pq by (intro exI[of _ "x @ sep @ p"] exI[of _ q]) auto
qed

lemma startsWith_append: "startsWith t s \<Longrightarrow> \<exists>q. t = s @ q"
  by (induction t s rule: startsWith.induct) auto

lemma includesStr_split: "includesStr t s \<Longrightarrow> \<exists>p q. t = p @ s @ q"
proof (induction t)
  case Nil
  then show ?case
    by simp
next
  case (Cons c cs)
  show ?case
  proof (cases "startsWith (c # cs) s")
    case True
    then obtain q where "c # cs = s @ q"
      using startsWith_append by blast
    then have "c # cs = [] @ s @ q"
      by simp
    then show ?thesis
      by blast
  next
    case False
    then have "includesStr cs s"
      using Cons.prems by simp
    then obtain p q where "cs = p @ s @ q"
      using Cons.IH by blast
    then have "c # cs = (c # p) @ s @ q"
      by simp
    then show ?thesis
      by blast
  qed
qed

lemma includesStr_trans:
  assumes "includesStr t u" and "includesStr u s"
  shows "includesStr t s"
proof -
  obtain p q where t: "t = p @ u @ q"
    using assms(1) includesStr_split by blast
  obtain p' q' where u: "u = p' @ s @ q'"
    using assms(2) includesStr_split by blast
  have "t = (p @ p') @ s @ (q' @ q)"
    using t u by simp
  then show ?thesis
    using includesStr_append by metis
qed

lemma includesStr_refl: "includesStr s s"
  using includesStr_append [of "[]" s "[]"] by simp

lemma join_element: "\<exists>p q. join sep (pre @ x # post) = p @ x @ q"
proof (induction pre)
  case Nil
  show ?case
  proof (cases post)
    case Nil
    then have "join sep ([] @ x # post) = [] @ x @ []"
      by simp
    then show ?thesis
      by blast
  next
    case (Cons c cs)
    then have "join sep ([] @ x # post) = [] @ x @ (sep @ join sep (c # cs))"
      by simp
    then show ?thesis
      by blast
  qed
next
  case (Cons y pre)
  then obtain p q where pq: "join sep (pre @ x # post) = p @ x @ q"
    by blast
  have "join sep ((y # pre) @ x # post) = y @ sep @ join sep (pre @ x # post)"
    by (simp add: join_Cons)
  then have "join sep ((y # pre) @ x # post) = (y @ sep @ p) @ x @ q"
    using pq by simp
  then show ?case
    by blast
qed

lemma includesStr_join: "x \<in> set xs \<Longrightarrow> includesStr (join sep xs) x"
proof -
  assume "x \<in> set xs"
  then obtain pre post where "xs = pre @ x # post"
    using split_list by fast
  then obtain p q where "join sep xs = p @ x @ q"
    using join_element by blast
  then show ?thesis
    using includesStr_append by metis
qed

lemma trim_not_empty:
  assumes "c \<in> set s" and "\<not> isSpace c"
  shows "truthy (trim s)"
proof -
  have keep: "x \<in> set xs \<Longrightarrow> \<not> isSpace x \<Longrightarrow> x \<in> set (dropWhile isSpace xs)" for x xs
    by (induction xs) auto
  have "c \<in> set (dropWhile isSpace s)"
    using assms keep by blast
  then have "c \<in> set (rev (dropWhile isSpace s))"
    by simp
  then have "c \<in> set (dropWhile isSpace (rev (dropWhile isSpace s)))"
    using assms(2) keep by blast
  moreover have "x \<in> set xs \<Longrightarrow> xs \<noteq> []" for x :: char and xs
    by (cases xs) auto
  ultimately have "dropWhile isSpace (rev (dropWhile isSpace s)) \<noteq> []"
    by blast
  then show ?thesis
    by (simp add: trim_def truthy_def)
qed

section \<open>The serializer\<close>












text \<open>
  C10. A column flagged as create-date or update-date that also carries an explicit default
  gets two default clauses in its settings: the explicit \<open>default: <value>\<close>, then
  \<open>default: `now()`\<close> right after it, and the bracketed settings text contains the two,
  separated by a comma.
\<close>

theorem C10_two_default_clauses:
  assumes role: "isTrue (c_isCreateDate column) \<or> isTrue (c_isUpdateDate column)"
      and dflt: "c_default column = Some d"
  shows "(\<exists>pre post. columnSettings opts column
            = pre @ [''default: '' @ formatDefaultValue d column, ''default: `now()`''] @ post)
         \<and> generateColumnSettings opts column
             = ''['' @ join '', '' (columnSettings opts column) @ '']''
         \<and> includesStr (generateColumnSettings opts column)
               (''default: '' @ formatDefaultValue d column @ '', default: `now()`'')"
proof -
  let ?a = "''default: '' @ formatDefaultValue d column"
  let ?b = "''default: `now()`''"
  define pre where "pre =
     (if c_isPrimary column
      then (if c_isGenerated column \<and> c_generationStrategy column = Some increment
            then [''pk'', ''increment'']
            else if c_isGenerated column \<and> c_generationStrategy column = Some uuid
            then [''pk'']
            else [''pk''])
      else [])
     @ (if c_isUnique column \<and> \<not> c_isPrimary column then [''unique''] else [])
     @ (if \<not> c_isNullable column then [''not null''] else [])"
  define post where "post =
     (if o_includeNotes opts \<and> truthyOpt (c_comment column)
        then [''note: '' @ [sq] @ escapeNote (the (c_comment column)) @ [sq]] else [])"
  have sp: "columnSettings opts column = pre @ [?a, ?b] @ post"
    using role dflt unfolding columnSettings_def pre_def post_def by simp
  then have ne: "columnSettings opts column \<noteq> []"
    by simp
  then have g: "generateColumnSettings opts column
                  = ''['' @ join '', '' (columnSettings opts column) @ '']''"
    by (simp add: generateColumnSettings_def Let_def)
  obtain p q where "join '', '' (pre @ [?a, ?b] @ post) = p @ ?a @ '', '' @ ?b @ q"
    using join_split by blast
  then have "generateColumnSettings opts column = (''['' @ p) @ (?a @ '', '' @ ?b) @ (q @ '']'')"
    using g sp by simp
  then have "includesStr (generateColumnSettings opts column) (?a @ '', '' @ ?b)"
    using includesStr_append by metis
  then show ?thesis
    using sp g by auto
qed

theorem C10_two_default_clauses_witness:
  "(isTrue (c_isCreateDate createdAtColumn) \<or> isTrue (c_isUpdateDate createdAtColumn))
   \<and> c_default createdAtColumn = Some ''2000-01-01''
   \<and> generateColumnSettings defaultOptions createdAtColumn
       = ''[not null, default: 2000-01-01, default: `now()`]''
   \<and> includesStr (generateColumnSettings defaultOptions createdAtColumn)
         (''default: '' @ formatDefaultValue ''2000-01-01'' createdAtColumn @ '', default: `now()`'')"
proof -
  have role: "isTrue (c_isCreateDate createdAtColumn) \<or> isTrue (c_isUpdateDate createdAtColumn)"
    by (simp add: createdAtColumn_def plainColumn_def isTrue_def)
  have dflt: "c_default createdAtColumn = Some ''2000-01-01''"
    by (simp add: createdAtColumn_def plainColumn_def)
  have rendered: "generateColumnSettings defaultOptions createdAtColumn
               = ''[not null, default: 2000-01-01, default: `now()`]''"
    by code_simp
  have "includesStr (generateColumnSettings defaultOptions createdAtColumn)
         (''default: '' @ formatDefaultValue ''2000-01-01'' createdAtColumn @ '', default: `now()`'')"
    using C10_two_default_clauses [OF role dflt, of defaultOptions] by (elim conjE)
  then show ?thesis
    using role dflt rendered by (intro conjI)
qed

section \<open>The type mapper\<close>

text \<open>
  A column that is no enum and is array-valued gets the array notation right after its
  base type.
\<close>

lemma mapType_array_suffix:
  assumes "\<not> truthyOpt (c_enumName column)" and "isTrue (c_isArray column)"
  shows "\<exists>rest. mapType proto column = getBaseType proto (c_type column) @ ''[]'' @ rest"
  using assms by (auto simp: mapType_def Let_def split: option.splits)

text \<open>
  C7. Every array-valued column should map to a type token that carries \<open>[]\<close>, enum
  columns included. At the enum column \<open>roles\<close> (enum \<open>user_role\<close>, array-valued)
  \<open>mapType\<close> returns the enum name alone: the return for enums comes before the array
  notation is added.
\<close>

theorem C7_enum_array_without_suffix:
  "isTrue (c_isArray enumArrayColumn)
   \<and> mapType proto enumArrayColumn = ''user_role''
   \<and> \<not> includesStr (mapType proto enumArrayColumn) ''[]''"
  by (simp add: mapType_def enumArrayColumn_def plainColumn_def truthyOpt_def truthy_def
      isTrue_def)

section \<open>Columns\<close>

text \<open>The options never touch the special-role flags; they change the type and the
  nullability only under the keys \<open>type\<close>, \<open>enum\<close> and \<open>nullable\<close>.\<close>

lemma extractEnumMetadata_roles:
  "specialRoles (fst (extractEnumMetadata i st)) = specialRoles (fst st)"
  by (simp add: extractEnumMetadata_def specialRoles_def Let_def
      split: option.splits list.splits Declaration.splits)

lemma extractEnumMetadata_nullable:
  "c_isNullable (fst (extractEnumMetadata i st)) = c_isNullable (fst st)"
  by (simp add: extractEnumMetadata_def Let_def
      split: option.splits list.splits Declaration.splits)

lemma columnOption_roles:
  "specialRoles (fst (columnOption name i st)) = specialRoles (fst st)"
  using extractEnumMetadata_roles [of i "(fst st, snd st)"]
  by (simp add: columnOption_def Let_def) (simp add: specialRoles_def)

lemma columnOption_nullable:
  "''nullable'' \<noteq> name \<Longrightarrow> c_isNullable (fst (columnOption name i st)) = c_isNullable (fst st)"
  using extractEnumMetadata_nullable [of i "(fst st, snd st)"]
  by (auto simp: columnOption_def Let_def)

lemma columnOption_type:
  "''type'' \<noteq> name \<Longrightarrow> ''enum'' \<noteq> name
   \<Longrightarrow> c_type (fst (columnOption name i st)) = c_type (fst st)"
  by (auto simp: columnOption_def Let_def)

lemma extractColumnOptions_roles:
  "specialRoles (fst (extractColumnOptions props st)) = specialRoles (fst st)"
  by (induction props st rule: extractColumnOptions.induct) (simp_all add: columnOption_roles)

lemma extractColumnOptions_nullable:
  "''nullable'' \<notin> set (assignedKeys props)
   \<Longrightarrow> c_isNullable (fst (extractColumnOptions props st)) = c_isNullable (fst st)"
  by (induction props st rule: extractColumnOptions.induct) (simp_all add: columnOption_nullable)

lemma extractColumnOptions_type:
  "''type'' \<notin> set (assignedKeys props) \<Longrightarrow> ''enum'' \<notin> set (assignedKeys props)
   \<Longrightarrow> c_type (fst (extractColumnOptions props st)) = c_type (fst st)"
  by (induction props st rule: extractColumnOptions.induct) (simp_all add: columnOption_type)

lemma extractOptionsOfArguments_roles:
  "specialRoles (fst (extractOptionsOfArguments args st)) = specialRoles (fst st)"
  by (induction args st rule: extractOptionsOfArguments.induct)
     (simp_all add: extractColumnOptions_roles split: SyntaxKind.splits)

lemma extractOptionsOfArguments_nullable:
  "''nullable'' \<notin> set (optionKeys args)
   \<Longrightarrow> c_isNullable (fst (extractOptionsOfArguments args st)) = c_isNullable (fst st)"
  by (induction args st rule: extractOptionsOfArguments.induct)
     (simp_all add: extractColumnOptions_nullable split: SyntaxKind.splits)

lemma extractOptionsOfArguments_type:
  "''type'' \<notin> set (optionKeys args) \<Longrightarrow> ''enum'' \<notin> set (optionKeys args)
   \<Longrightarrow> c_type (fst (extractOptionsOfArguments args st)) = c_type (fst st)"
  by (induction args st rule: extractOptionsOfArguments.induct)
     (simp_all add: extractColumnOptions_type split: SyntaxKind.splits)

lemma inferTypeFromTsType_roles:
  "specialRoles (snd (inferTypeFromTsType t metadata)) = specialRoles metadata"
  by (simp add: inferTypeFromTsType_def Let_def specialRoles_def)

lemma inferTypeFromTsType_nullable:
  "c_isNullable (snd (inferTypeFromTsType t metadata)) = c_isNullable metadata"
  by (simp add: inferTypeFromTsType_def Let_def)

lemma roleMetadata_roles:
  "specialRoles (roleMetadata n d) =
     [Some (d_name d = ''CreateDateColumn''), Some (d_name d = ''UpdateDateColumn''),
      Some (d_name d = ''DeleteDateColumn''), Some (d_name d = ''VersionColumn'')]"
  by (simp add: roleMetadata_def specialRoles_def Let_def split: list.splits)

lemma roleMetadata_date:
  "d_name d \<in> set [''CreateDateColumn'', ''UpdateDateColumn'', ''DeleteDateColumn'']
   \<Longrightarrow> c_type (roleMetadata n d) = ''timestamp'' \<and> \<not> c_isNullable (roleMetadata n d)"
  by (auto simp: roleMetadata_def Let_def)

lemma roleMetadata_version:
  "d_name d = ''VersionColumn''
   \<Longrightarrow> c_type (roleMetadata n d) = ''integer'' \<and> \<not> c_isNullable (roleMetadata n d)"
  by (simp add: roleMetadata_def Let_def)

text \<open>What the second half of the extraction keeps of the metadata after the options.\<close>

lemma extracted_column:
  assumes ex: "extractColumnFromProperty property m = (Some column, m')"
      and dec: "find (\<lambda>d. d_name d \<in> set columnDecoratorNames) (p_decorators property)
                  = Some columnDecorator"
      and aft: "after = fst (extractOptionsOfArguments (d_arguments columnDecorator)
                          (roleMetadata (p_name property) columnDecorator, m))"
  shows "specialRoles column = specialRoles after"
    and "c_isNullable column = c_isNullable after"
    and "c_type after \<noteq> ''varchar'' \<Longrightarrow> c_type column = c_type after"
proof -
  define inferred where "inferred =
     (if c_type after = ''varchar'' \<and> \<not> c_isGenerated after
      then (snd (inferTypeFromTsType (p_type property) after))
             \<lparr> c_type := fst (inferTypeFromTsType (p_type property) after) \<rparr>
      else after)"
  have col: "column =
       (case firstJsDocComment (p_jsDocs property) of
          Some comment \<Rightarrow> inferred\<lparr> c_comment := Some comment \<rparr>
        | None \<Rightarrow> inferred)"
    using ex unfolding extractColumnFromProperty_def dec inferred_def aft
    by (auto simp: Let_def split: option.splits if_splits)
  have i1: "specialRoles inferred = specialRoles after"
    using inferTypeFromTsType_roles [of "p_type property" after]
    by (simp add: inferred_def specialRoles_def)
  have i2: "c_isNullable inferred = c_isNullable after"
    by (simp add: inferred_def inferTypeFromTsType_nullable)
  have i3: "c_type after \<noteq> ''varchar'' \<Longrightarrow> c_type inferred = c_type after"
    by (simp add: inferred_def)
  show "specialRoles column = specialRoles after"
    using i1 by (simp add: col specialRoles_def split: option.splits)
  show "c_isNullable column = c_isNullable after"
    using i2 by (simp add: col split: option.splits)
  show "c_type after \<noteq> ''varchar'' \<Longrightarrow> c_type column = c_type after"
    using i3 by (simp add: col split: option.splits)
qed

text \<open>
  C5 (as amended). Of the special-role flags of an extracted column at most one is true.
  When a date role is true the type is \<open>timestamp\<close>, when the version role is true it is
  \<open>integer\<close>, whatever the declared type of the property, unless the options of the
  annotation assign \<open>type\<close> or \<open>enum\<close>; and the column is not nullable, unless the options
  assign \<open>nullable\<close>.
\<close>

theorem C5_special_role_columns:
  assumes ex: "extractColumnFromProperty property m = (Some column, m')"
      and dec: "find (\<lambda>d. d_name d \<in> set columnDecoratorNames) (p_decorators property)
                  = Some columnDecorator"
  shows "length (filter isTrue (specialRoles column)) \<le> 1
     \<and> ((isTrue (c_isCreateDate column) \<or> isTrue (c_isUpdateDate column)
          \<or> isTrue (c_isDeleteDate column))
         \<and> ''type'' \<notin> set (optionKeys (d_arguments columnDecorator))
         \<and> ''enum'' \<notin> set (optionKeys (d_arguments columnDecorator))
         \<longrightarrow> c_type column = ''timestamp'')
     \<and> (isTrue (c_isVersion column)
         \<and> ''type'' \<notin> set (optionKeys (d_arguments columnDecorator))
         \<and> ''enum'' \<notin> set (optionKeys (d_arguments columnDecorator))
         \<longrightarrow> c_type column = ''integer'')
     \<and> (list_ex isTrue (specialRoles column)
         \<and> ''nullable'' \<notin> set (optionKeys (d_arguments columnDecorator))
         \<longrightarrow> \<not> c_isNullable column)"
proof -
  define dn where "dn = d_name columnDecorator"
  define args where "args = d_arguments columnDecorator"
  define before where "before = roleMetadata (p_name property) columnDecorator"
  define after where "after = fst (extractOptionsOfArguments args (before, m))"
  have roles: "specialRoles column =
       [Some (dn = ''CreateDateColumn''), Some (dn = ''UpdateDateColumn''),
        Some (dn = ''DeleteDateColumn''), Some (dn = ''VersionColumn'')]"
    using extracted_column(1) [OF ex dec refl] extractOptionsOfArguments_roles [of args "(before, m)"]
    by (simp add: roleMetadata_roles dn_def args_def before_def)
  have null: "c_isNullable column = c_isNullable after"
    using extracted_column(2) [OF ex dec refl] by (simp add: after_def before_def args_def)
  have type: "c_type after \<noteq> ''varchar'' \<Longrightarrow> c_type column = c_type after"
    using extracted_column(3) [OF ex dec refl] by (simp add: after_def before_def args_def)
  have one: "length (filter isTrue (specialRoles column)) \<le> 1"
    by (simp add: roles isTrue_def)
  have date: "c_type column = ''timestamp''"
    if "isTrue (c_isCreateDate column) \<or> isTrue (c_isUpdateDate column)
          \<or> isTrue (c_isDeleteDate column)"
      and "''type'' \<notin> set (optionKeys args)" and "''enum'' \<notin> set (optionKeys args)"
  proof -
    have "dn \<in> set [''CreateDateColumn'', ''UpdateDateColumn'', ''DeleteDateColumn'']"
      using that(1) roles by (auto simp: specialRoles_def isTrue_def)
    then have "c_type before = ''timestamp''"
      using roleMetadata_date by (simp add: before_def dn_def)
    then have "c_type after = ''timestamp''"
      using extractOptionsOfArguments_type [OF that(2,3)] by (simp add: after_def)
    then show ?thesis
      using type by simp
  qed
  have version: "c_type column = ''integer''"
    if "isTrue (c_isVersion column)"
      and "''type'' \<notin> set (optionKeys args)" and "''enum'' \<notin> set (optionKeys args)"
  proof -
    have "dn = ''VersionColumn''"
      using that(1) roles by (auto simp: specialRoles_def isTrue_def)
    then have "c_type before = ''integer''"
      using roleMetadata_version by (simp add: before_def dn_def)
    then have "c_type after = ''integer''"
      using extractOptionsOfArguments_type [OF that(2,3)] by (simp add: after_def)
    then show ?thesis
      using type by simp
  qed
  have nonnull: "\<not> c_isNullable column"
    if "list_ex isTrue (specialRoles column)" and "''nullable'' \<notin> set (optionKeys args)"
  proof -
    have "dn \<in> set [''CreateDateColumn'', ''UpdateDateColumn'', ''DeleteDateColumn'']
            \<or> dn = ''VersionColumn''"
      using that(1) by (auto simp: roles isTrue_def)
    then have "\<not> c_isNullable before"
      using roleMetadata_date roleMetadata_version by (auto simp: before_def dn_def)
    then have "\<not> c_isNullable after"
      using extractOptionsOfArguments_nullable [OF that(2)] by (simp add: after_def)
    then show ?thesis
      using null by simp
  qed
  show ?thesis
    using one date version nonnull unfolding args_def by blast
qed

theorem C5_special_role_columns_witness:
  "extractColumnFromProperty createdAtProperty [] = (Some createdColumn, [])
   \<and> extractColumnFromProperty versionProperty [] = (Some versionColumn, [])
   \<and> isTrue (c_isCreateDate createdColumn) \<and> c_type createdColumn = ''timestamp''
   \<and> \<not> c_isNullable createdColumn
   \<and> isTrue (c_isVersion versionColumn) \<and> c_type versionColumn = ''integer''
   \<and> \<not> c_isNullable versionColumn"
proof -
  have ex1: "extractColumnFromProperty createdAtProperty [] = (Some createdColumn, [])"
    by code_simp
  have dec1: "find (\<lambda>d. d_name d \<in> set columnDecoratorNames) (p_decorators createdAtProperty)
                = Some createDateDecorator"
    by code_simp
  have keys1: "optionKeys (d_arguments createDateDecorator) = [''name'']"
    by code_simp
  have role1: "isTrue (c_isCreateDate createdColumn)"
    by code_simp
  have any1: "list_ex isTrue (specialRoles createdColumn)"
    by code_simp
  have r1: "c_type createdColumn = ''timestamp'' \<and> \<not> c_isNullable createdColumn"
    using C5_special_role_columns [OF ex1 dec1] role1 any1 by (simp add: keys1)
  have ex2: "extractColumnFromProperty versionProperty [] = (Some versionColumn, [])"
    by code_simp
  have dec2: "find (\<lambda>d. d_name d \<in> set columnDecoratorNames) (p_decorators versionProperty)
                = Some versionDecorator"
    by code_simp
  have keys2: "optionKeys (d_arguments versionDecorator) = []"
    by code_simp
  have role2: "isTrue (c_isVersion versionColumn)"
    by code_simp
  have any2: "list_ex isTrue (specialRoles versionColumn)"
    by code_simp
  have r2: "c_type versionColumn = ''integer'' \<and> \<not> c_isNullable versionColumn"
    using C5_special_role_columns [OF ex2 dec2] role2 any2 by (simp add: keys2)
  show ?thesis
    using ex1 ex2 role1 role2 r1 r2 by (intro conjI) simp_all
qed

text \<open>
  C5 as stated fails where the options override: the create-date column of
  \<open>@CreateDateColumn({ type: 'timestamptz', nullable: true })\<close> has the type of its options
  and is nullable.
\<close>

theorem C5_options_override_counterexample:
  "fst (extractColumnFromProperty createdAtWithOptions []) \<noteq> None
   \<and> isTrue (c_isCreateDate (the (fst (extractColumnFromProperty createdAtWithOptions []))))
   \<and> c_type (the (fst (extractColumnFromProperty createdAtWithOptions []))) = ''timestamptz''
   \<and> c_isNullable (the (fst (extractColumnFromProperty createdAtWithOptions [])))"
  by code_simp

lemma extractEnumMetadata_generated:
  "c_isPrimary (fst (extractEnumMetadata i st)) = c_isPrimary (fst st)
   \<and> c_isGenerated (fst (extractEnumMetadata i st)) = c_isGenerated (fst st)
   \<and> c_generationStrategy (fst (extractEnumMetadata i st)) = c_generationStrategy (fst st)"
  by (simp add: extractEnumMetadata_def Let_def
      split: option.splits list.splits Declaration.splits)

lemma columnOption_generated:
  "c_isPrimary (fst (columnOption name i st)) = c_isPrimary (fst st)
   \<and> c_isGenerated (fst (columnOption name i st)) = c_isGenerated (fst st)
   \<and> c_generationStrategy (fst (columnOption name i st)) = c_generationStrategy (fst st)"
  using extractEnumMetadata_generated [of i "(fst st, snd st)"]
  by (simp add: columnOption_def Let_def)

lemma extractColumnOptions_generated:
  "c_isPrimary (fst (extractColumnOptions props st)) = c_isPrimary (fst st)
   \<and> c_isGenerated (fst (extractColumnOptions props st)) = c_isGenerated (fst st)
   \<and> c_generationStrategy (fst (extractColumnOptions props st)) = c_generationStrategy (fst st)"
  by (induction props st rule: extractColumnOptions.induct) (simp_all add: columnOption_generated)

lemma extractOptionsOfArguments_generated:
  "c_isPrimary (fst (extractOptionsOfArguments args st)) = c_isPrimary (fst st)
   \<and> c_isGenerated (fst (extractOptionsOfArguments args st)) = c_isGenerated (fst st)
   \<and> c_generationStrategy (fst (extractOptionsOfArguments args st)) = c_generationStrategy (fst st)"
  by (induction args st rule: extractOptionsOfArguments.induct)
     (simp_all add: extractColumnOptions_generated split: SyntaxKind.splits)

text \<open>
  What holds of every primary-generated column: it is primary and generated; without any
  argument its strategy is \<open>increment\<close>; and its type is the one of its strategy, or
  \<open>varchar\<close> without a strategy, unless the options assign \<open>type\<close> or \<open>enum\<close>.
\<close>

lemma primaryGenerated_column:
  assumes ex: "extractColumnFromProperty property m = (Some column, m')"
      and dec: "find (\<lambda>d. d_name d \<in> set columnDecoratorNames) (p_decorators property)
                  = Some columnDecorator"
      and gen: "d_name columnDecorator = ''PrimaryGeneratedColumn''"
  shows "c_isPrimary column \<and> c_isGenerated column"
    and "d_arguments columnDecorator = [] \<Longrightarrow>
           c_generationStrategy column = Some increment \<and> c_type column = ''integer''"
    and "c_generationStrategy column
           = c_generationStrategy (roleMetadata (p_name property) columnDecorator)"
    and "''type'' \<notin> set (optionKeys (d_arguments columnDecorator))
         \<Longrightarrow> ''enum'' \<notin> set (optionKeys (d_arguments columnDecorator))
         \<Longrightarrow> c_type column = c_type (roleMetadata (p_name property) columnDecorator)"
proof -
  define before where "before = roleMetadata (p_name property) columnDecorator"
  define after where
    "after = fst (extractOptionsOfArguments (d_arguments columnDecorator) (before, m))"
  have b: "c_isPrimary before \<and> c_isGenerated before"
    using gen by (simp add: before_def roleMetadata_def Let_def split: list.splits)
  have a: "c_isPrimary after = c_isPrimary before \<and> c_isGenerated after = c_isGenerated before
           \<and> c_generationStrategy after = c_generationStrategy before"
    using extractOptionsOfArguments_generated [of "d_arguments columnDecorator" "(before, m)"]
    by (simp add: after_def)
  have col: "column =
       (case firstJsDocComment (p_jsDocs property) of
          Some comment \<Rightarrow> after\<lparr> c_comment := Some comment \<rparr>
        | None \<Rightarrow> after)"
    using ex a b unfolding extractColumnFromProperty_def dec after_def before_def
    by (auto simp: Let_def split: option.splits if_splits)
  show "c_isPrimary column \<and> c_isGenerated column"
    using a b by (simp add: col split: option.splits)
  show "c_generationStrategy column
           = c_generationStrategy (roleMetadata (p_name property) columnDecorator)"
    using a by (simp add: col before_def split: option.splits)
  show "c_type column = c_type (roleMetadata (p_name property) columnDecorator)"
    if "''type'' \<notin> set (optionKeys (d_arguments columnDecorator))"
      and "''enum'' \<notin> set (optionKeys (d_arguments columnDecorator))"
    using extractOptionsOfArguments_type [OF that, of "(before, m)"]
    by (simp add: col after_def before_def split: option.splits)
  show "c_generationStrategy column = Some increment \<and> c_type column = ''integer''"
    if "d_arguments columnDecorator = []"
  proof -
    have "c_generationStrategy before = Some increment \<and> c_type before = ''integer''"
      using gen that by (simp add: before_def roleMetadata_def Let_def)
    moreover have "after = before"
      using that by (simp add: after_def)
    ultimately show ?thesis
      by (simp add: col split: option.splits)
  qed
qed

text \<open>
  C6. A primary-generated column should always have a generation strategy, \<open>increment\<close>
  with type \<open>integer\<close> when no strategy argument is given. At
  \<open>@PrimaryGeneratedColumn({ name: 'user_id' }) id: number\<close>, which gives options and no
  strategy, the extracted column is primary and generated but has no generation strategy,
  and its type stays \<open>varchar\<close>: the default is applied only to an empty argument list.
\<close>

theorem C6_options_only_without_strategy:
  "fst (extractColumnFromProperty idColumnWithOptions []) \<noteq> None
   \<and> c_isPrimary (the (fst (extractColumnFromProperty idColumnWithOptions [])))
   \<and> c_isGenerated (the (fst (extractColumnFromProperty idColumnWithOptions [])))
   \<and> c_generationStrategy (the (fst (extractColumnFromProperty idColumnWithOptions []))) = None
   \<and> c_type (the (fst (extractColumnFromProperty idColumnWithOptions []))) = ''varchar''
   \<and> generateColumn proto defaultOptions
         (the (fst (extractColumnFromProperty idColumnWithOptions [])))
       = ''user_id varchar [pk, not null]''"
  by code_simp

section \<open>Index annotations\<close>

text \<open>The options of an index never change its columns, and commute with setting them.\<close>

lemma indexOption_columns:
  "i_columns (indexOption name i metadata) = i_columns metadata"
  by (simp add: indexOption_def Let_def)

lemma indexOption_set_columns:
  "indexOption name i (metadata\<lparr> i_columns := cs \<rparr>)
     = (indexOption name i metadata)\<lparr> i_columns := cs \<rparr>"
  by (simp add: indexOption_def Let_def)

lemma indexOption_set_name:
  "indexOption name i (metadata\<lparr> i_name := n \<rparr>)
     = (indexOption name i metadata)\<lparr> i_name := n \<rparr>"
  by (simp add: indexOption_def Let_def)

lemma indexOptions_columns:
  "i_columns (indexOptions props metadata) = i_columns metadata"
  by (induction props metadata rule: indexOptions.induct) (simp_all add: indexOption_columns)

lemma indexOptions_set_columns:
  "indexOptions props (metadata\<lparr> i_columns := cs \<rparr>)
     = (indexOptions props metadata)\<lparr> i_columns := cs \<rparr>"
  by (induction props metadata rule: indexOptions.induct)
     (simp_all add: indexOption_set_columns)

lemma indexOptions_set_name:
  "indexOptions props (metadata\<lparr> i_name := n \<rparr>)
     = (indexOptions props metadata)\<lparr> i_name := n \<rparr>"
  by (induction props metadata rule: indexOptions.induct)
     (simp_all add: indexOption_set_name)

lemma extractColumnsFromArray_elements:
  "getKind arr = ArrayLiteralExpression elements
   \<Longrightarrow> extractColumnsFromArray arr
       = map (\<lambda>e. stripQuotes (getText e)) (filter (\<lambda>e. getKind e = StringLiteral) elements)"
proof -
  have "concat (map (\<lambda>element. case getKind element of StringLiteral \<Rightarrow> [stripQuotes (getText element)]
                                     | _ \<Rightarrow> []) es)
          = map (\<lambda>e. stripQuotes (getText e)) (filter (\<lambda>e. getKind e = StringLiteral) es)" for es
    by (induction es) (auto split: SyntaxKind.splits)
  then show "getKind arr = ArrayLiteralExpression elements
   \<Longrightarrow> extractColumnsFromArray arr
       = map (\<lambda>e. stripQuotes (getText e)) (filter (\<lambda>e. getKind e = StringLiteral) elements)"
    by (simp add: extractColumnsFromArray_def)
qed

text \<open>
  C4 (as amended). The shape with the columns array first and the shape with a name and then
  the columns array give the same column list, the string literals of the array without
  their quotes, and the same flags, those of a trailing options literal when there is one;
  they differ in the name only. Both give no result when the column list is empty. An
  options literal supplies flags only: reading it never changes the column list.
\<close>

theorem C4_index_shapes:
  assumes arr: "getKind columnsArg = ArrayLiteralExpression elements"
      and nam: "getKind nameArg = StringLiteral"
      and opt: "getKind optionsArg = ObjectLiteralExpression props"
      and cols: "cols = map (\<lambda>e. stripQuotes (getText e))
                          (filter (\<lambda>e. getKind e = StringLiteral) elements)"
      and flags: "flags = indexOptions props emptyIndex"
  shows "extractIndexFromDecorator \<lparr> d_name = n, d_arguments = [columnsArg] \<rparr>
           = (if cols = [] then None else Some (emptyIndex\<lparr> i_columns := cols \<rparr>))
       \<and> extractIndexFromDecorator \<lparr> d_name = n, d_arguments = [columnsArg, optionsArg] \<rparr>
           = (if cols = [] then None else Some (flags\<lparr> i_columns := cols \<rparr>))
       \<and> extractIndexFromDecorator \<lparr> d_name = n, d_arguments = [nameArg, columnsArg] \<rparr>
           = (if cols = [] then None
              else Some (emptyIndex\<lparr> i_name := Some (stripQuotes (getText nameArg)),
                                     i_columns := cols \<rparr>))
       \<and> extractIndexFromDecorator \<lparr> d_name = n, d_arguments = [nameArg, columnsArg, optionsArg] \<rparr>
           = (if cols = [] then None
              else Some (flags\<lparr> i_name := Some (stripQuotes (getText nameArg)),
                                 i_columns := cols \<rparr>))
       \<and> i_columns (extractIndexOptions optionsArg metadata) = i_columns metadata"
proof -
  have c: "extractColumnsFromArray columnsArg = cols"
    using extractColumnsFromArray_elements [OF arr] cols by simp
  have s1: "extractIndexFromDecorator \<lparr> d_name = n, d_arguments = [columnsArg] \<rparr>
           = (if cols = [] then None else Some (emptyIndex\<lparr> i_columns := cols \<rparr>))"
    by (simp add: extractIndexFromDecorator_def indexTail_def arr c)
  have s2: "extractIndexFromDecorator \<lparr> d_name = n, d_arguments = [columnsArg, optionsArg] \<rparr>
           = (if cols = [] then None else Some (flags\<lparr> i_columns := cols \<rparr>))"
    by (simp add: extractIndexFromDecorator_def indexTail_def extractIndexOptions_def arr opt c
        flags indexOptions_set_columns)
  have s3: "extractIndexFromDecorator \<lparr> d_name = n, d_arguments = [nameArg, columnsArg] \<rparr>
           = (if cols = [] then None
              else Some (emptyIndex\<lparr> i_name := Some (stripQuotes (getText nameArg)),
                                     i_columns := cols \<rparr>))"
    by (simp add: extractIndexFromDecorator_def indexTail_def arr nam c)
  have s4: "extractIndexFromDecorator \<lparr> d_name = n, d_arguments = [nameArg, columnsArg, optionsArg] \<rparr>
           = (if cols = [] then None
              else Some (flags\<lparr> i_name := Some (stripQuotes (getText nameArg)),
                                 i_columns := cols \<rparr>))"
    by (simp add: extractIndexFromDecorator_def indexTail_def extractIndexOptions_def arr nam opt c
        flags indexOptions_set_columns indexOptions_set_name)
  have s5: "i_columns (extractIndexOptions optionsArg metadata) = i_columns metadata"
    by (simp add: extractIndexOptions_def opt indexOptions_columns)
  show ?thesis
    using s1 s2 s3 s4 s5 by (intro conjI)
qed

theorem C4_index_shapes_witness:
  "getKind abColumns = ArrayLiteralExpression [stringLiteral ''a'', stringLiteral ''b'']
   \<and> getKind idxName = StringLiteral
   \<and> extractIndexFromDecorator \<lparr> d_name = ''Index'', d_arguments = [abColumns, uniqueOption] \<rparr>
       = Some (emptyIndex\<lparr> i_columns := [''a'', ''b''], i_isUnique := True \<rparr>)
   \<and> extractIndexFromDecorator
         \<lparr> d_name = ''Index'', d_arguments = [idxName, abColumns, uniqueOption] \<rparr>
       = Some (emptyIndex\<lparr> i_name := Some ''idx_name'', i_columns := [''a'', ''b''],
                             i_isUnique := True \<rparr>)"
proof -
  have arr: "getKind abColumns = ArrayLiteralExpression [stringLiteral ''a'', stringLiteral ''b'']"
    by (simp add: abColumns_def arrayLiteral_def)
  have nam: "getKind idxName = StringLiteral"
    by (simp add: idxName_def stringLiteral_def)
  have opt: "getKind uniqueOption
               = ObjectLiteralExpression [PropertyAssignment ''unique'' (Some (keyword ''true''))]"
    by (simp add: uniqueOption_def objectLiteral_def)
  have cols: "map (\<lambda>e. stripQuotes (getText e))
                (filter (\<lambda>e. getKind e = StringLiteral) [stringLiteral ''a'', stringLiteral ''b''])
              = [''a'', ''b'']"
    by code_simp
  have flags: "indexOptions [PropertyAssignment ''unique'' (Some (keyword ''true''))] emptyIndex
               = emptyIndex\<lparr> i_isUnique := True \<rparr>"
    by code_simp
  have nm: "stripQuotes (getText idxName) = ''idx_name''"
    by code_simp
  have s: "extractIndexFromDecorator \<lparr> d_name = ''Index'', d_arguments = [abColumns, uniqueOption] \<rparr>
       = Some (emptyIndex\<lparr> i_columns := [''a'', ''b''], i_isUnique := True \<rparr>)
     \<and> extractIndexFromDecorator
         \<lparr> d_name = ''Index'', d_arguments = [idxName, abColumns, uniqueOption] \<rparr>
       = Some (emptyIndex\<lparr> i_name := Some ''idx_name'', i_columns := [''a'', ''b''],
                             i_isUnique := True \<rparr>)"
    using C4_index_shapes [OF arr nam opt cols [symmetric] flags [symmetric], of "''Index''"]
    by (simp add: nm emptyIndex_def)
  show ?thesis
    using arr nam s by (intro conjI) simp_all
qed

text \<open>
  C4 as stated fails at the options-only shape: \<open>@Index({ columns: ['a'], unique: true })\<close>
  gives a result, with the flag and with no column, where the shape \<open>(['a'], { unique: true })\<close>
  gives the column \<open>a\<close>.
\<close>

theorem C4_options_only_counterexample:
  "extractIndexFromDecorator indexOptionsOnly \<noteq> None
   \<and> i_columns (the (extractIndexFromDecorator indexOptionsOnly)) = []
   \<and> i_isUnique (the (extractIndexFromDecorator indexOptionsOnly))
   \<and> extractIndexFromDecorator
         \<lparr> d_name = ''Index'', d_arguments = [arrayLiteral [stringLiteral ''a''], uniqueOption] \<rparr>
       = Some (emptyIndex\<lparr> i_columns := [''a''], i_isUnique := True \<rparr>)"
  by code_simp

section \<open>Relations\<close>

text \<open>A one-to-one relation without join-column metadata gives no reference line.\<close>

lemma generateRelation_OneToOne_no_joinColumn:
  "r_type relation = OneToOne \<Longrightarrow> r_joinColumn relation = None
   \<Longrightarrow> generateRelation proto entity relation = None"
  by (simp add: generateRelation_def generateOneToOne_def)

text \<open>
  Every one-to-one relation that the extractor produces has join-column metadata: the
  one of its \<open>JoinColumn\<close> annotation, or else the default one.
\<close>

lemma extracted_OneToOne_has_joinColumn:
  assumes "extractRelationFromProperty property = Some relation" and "r_type relation = OneToOne"
  shows "r_joinColumn relation \<noteq> None"
  using assms
  by (auto simp: extractRelationFromProperty_def Let_def split: option.splits if_splits)

text \<open>
  C3. A one-to-one relationship should give one reference line, from the side that carries
  the join column, and none from the mirror property. For the classes \<open>User\<close> and
  \<open>UserProfile\<close> above, where only \<open>UserProfile.user\<close> has a \<open>JoinColumn\<close> annotation, the
  mirror property \<open>User.profile\<close> gets the default join column from the extractor and the
  serializer emits a reference line from each side.
\<close>

theorem C3_mirror_side_emits_reference:
  "find (\<lambda>d. d_name d = ''JoinColumn'') (p_decorators profileProperty) = None
   \<and> relationRefs proto (entities (generateSchema [userClass, userProfileClass]))
       = [''Ref: user.profile_id - user_profile.id'', ''Ref: user_profile.user_id - user.id'']"
  by code_simp

section \<open>The second pass\<close>

text \<open>The lookup from class names to table names.\<close>

lemma mapGet_mapSet: "mapGet (mapSet m k v) k' = (if k' = k then Some v else mapGet m k')"
  by (induction m k v rule: mapSet.induct) (auto simp: mapGet_def)

lemma classToTable_foldl_other:
  "k \<notin> set (map e_name es)
   \<Longrightarrow> mapGet (foldl (\<lambda>m e. mapSet m (e_name e) (e_tableName e)) m0 es) k = mapGet m0 k"
  by (induction es arbitrary: m0) (auto simp: mapGet_mapSet)

lemma classToTable_foldl_member:
  assumes "\<forall>x \<in> set es. e_tableName x = f (e_name x)" and "e \<in> set es"
  shows "mapGet (foldl (\<lambda>m e. mapSet m (e_name e) (e_tableName e)) m0 es) (e_name e)
           = Some (e_tableName e)"
  using assms
proof (induction es rule: rev_induct)
  case Nil
  then show ?case by simp
next
  case (snoc x es)
  show ?case
  proof (cases "e_name e = e_name x")
    case True
    have "e_tableName e = f (e_name e)" and "e_tableName x = f (e_name x)"
      using snoc.prems by auto
    then have "e_tableName x = e_tableName e"
      using True by simp
    then show ?thesis
      using True by (simp add: mapGet_mapSet)
  next
    case False
    then have "e \<in> set es"
      using snoc.prems(2) by auto
    then show ?thesis
      using snoc.IH snoc.prems(1) False by (simp add: mapGet_mapSet)
  qed
qed

lemma classToTable_member:
  "\<forall>x \<in> set es. e_tableName x = f (e_name x) \<Longrightarrow> e \<in> set es
   \<Longrightarrow> mapGet (classToTable es) (e_name e) = Some (e_tableName e)"
  unfolding classToTable_def by (rule classToTable_foldl_member)

lemma classToTable_absent:
  "k \<notin> set (map e_name es) \<Longrightarrow> mapGet (classToTable es) k = None"
  using classToTable_foldl_other [of k es "[]"] by (simp add: classToTable_def mapGet_def)

lemma resolved_relation:
  "a < length es \<Longrightarrow> i < length (e_relations (es ! a))
   \<Longrightarrow> e_relations (resolveRelationships es ! a) ! i
       = resolveRelation (classToTable es) (e_relations (es ! a) ! i)"
  by (simp add: resolveRelationships_def Let_def)

lemma resolved_entity:
  "a < length es
   \<Longrightarrow> resolveRelationships es ! a
       = (es ! a)\<lparr> e_relations := map (resolveRelation (classToTable es)) (e_relations (es ! a)) \<rparr>"
  by (simp add: resolveRelationships_def Let_def)

text \<open>
  The kind of the argument of \<open>@Entity\<close> is compared with numbers that are not the kinds
  of a string literal and of an object literal, so that the first pass gives every entity
  the snake-case form of its class name as table name.
\<close>

lemma extractEntityDecorator_tableName:
  "ed_tableName (extractEntityDecorator classDecl) = toSnakeCase (className classDecl)"
  by (simp add: extractEntityDecorator_def Let_def hasKindNumber_def
           split: option.splits list.splits)

lemma extractEntityMetadata_tableName:
  "e_tableName (fst (extractEntityMetadata this classDecl))
     = toSnakeCase (e_name (fst (extractEntityMetadata this classDecl)))"
  by (simp add: extractEntityMetadata_def Let_def extractEntityDecorator_tableName)

lemma firstPass_tableName:
  "e \<in> set (fst (firstPass this classes)) \<Longrightarrow> e_tableName e = toSnakeCase (e_name e)"
proof (induction classes arbitrary: this)
  case Nil
  then show ?case by simp
next
  case (Cons classDecl classes)
  then show ?case
    using extractEntityMetadata_tableName [of this classDecl] by (auto simp: Let_def)
qed

text \<open>
  C2 (as amended). In the batch that the first pass extracts from any list of classes, when
  a relation of entity \<open>A\<close> targets the class name of entity \<open>B\<close> and a relation of \<open>B\<close>
  targets the class name of \<open>A\<close>, wherever the two stand in the batch, the second pass
  rewrites both targets to the table names of \<open>B\<close> and of \<open>A\<close>, provided these table names
  are not empty.
\<close>

theorem C2_batch_targets_resolved:
  assumes es: "es = fst (firstPass this classes)"
      and a: "a < length es" and b: "b < length es"
      and i: "i < length (e_relations (es ! a))" and j: "j < length (e_relations (es ! b))"
      and ab: "r_target (e_relations (es ! a) ! i) = e_name (es ! b)"
      and ba: "r_target (e_relations (es ! b) ! j) = e_name (es ! a)"
      and ta: "truthy (e_tableName (es ! a))" and tb: "truthy (e_tableName (es ! b))"
  shows "r_target (e_relations (entities (fst (extractMetadata this classes)) ! a) ! i)
           = e_tableName (es ! b)
       \<and> r_target (e_relations (entities (fst (extractMetadata this classes)) ! b) ! j)
           = e_tableName (es ! a)"
proof -
  have names: "\<forall>x \<in> set es. e_tableName x = toSnakeCase (e_name x)"
    using firstPass_tableName es by blast
  have la: "mapGet (classToTable es) (e_name (es ! a)) = Some (e_tableName (es ! a))"
    using classToTable_member [OF names] a by simp
  have lb: "mapGet (classToTable es) (e_name (es ! b)) = Some (e_tableName (es ! b))"
    using classToTable_member [OF names] b by simp
  have "r_target (resolveRelation (classToTable es) (e_relations (es ! a) ! i)) = e_tableName (es ! b)"
    using ab lb tb by (simp add: resolveRelation_def)
  moreover have "r_target (resolveRelation (classToTable es) (e_relations (es ! b) ! j))
                   = e_tableName (es ! a)"
    using ba la ta by (simp add: resolveRelation_def)
  moreover have "entities (fst (extractMetadata this classes)) = resolveRelationships es"
    by (simp add: extractMetadata_def Let_def es)
  ultimately show ?thesis
    using resolved_relation [OF a i] resolved_relation [OF b j] by simp
qed

theorem C2_batch_targets_resolved_witness:
  "map e_name (fst (firstPass newMetadataExtractor [orderClass, customerClass]))
     = [''Order'', ''Customer'']
   \<and> concat (map (\<lambda>e. map r_target (e_relations e))
         (fst (firstPass newMetadataExtractor [orderClass, customerClass])))
     = [''Customer'', ''Order'']
   \<and> r_target (e_relations (entities (generateSchema [orderClass, customerClass]) ! 0) ! 0)
       = ''customer''
   \<and> r_target (e_relations (entities (generateSchema [orderClass, customerClass]) ! 1) ! 0)
       = ''order''"
proof -
  let ?es = "fst (firstPass newMetadataExtractor [orderClass, customerClass])"
  have names: "map e_name ?es = [''Order'', ''Customer'']"
    by code_simp
  have targets: "concat (map (\<lambda>e. map r_target (e_relations e)) ?es) = [''Customer'', ''Order'']"
    by code_simp
  have a: "0 < length ?es" and b: "1 < length ?es"
    by code_simp+
  have i: "0 < length (e_relations (?es ! 0))" and j: "0 < length (e_relations (?es ! 1))"
    by code_simp+
  have ab: "r_target (e_relations (?es ! 0) ! 0) = e_name (?es ! 1)"
    by code_simp
  have ba: "r_target (e_relations (?es ! 1) ! 0) = e_name (?es ! 0)"
    by code_simp
  have ta: "truthy (e_tableName (?es ! 0))" and tb: "truthy (e_tableName (?es ! 1))"
    by code_simp+
  have t0: "e_tableName (?es ! 0) = ''order''" and t1: "e_tableName (?es ! 1) = ''customer''"
    by code_simp+
  have "r_target (e_relations (entities (fst (extractMetadata newMetadataExtractor
            [orderClass, customerClass])) ! 0) ! 0) = e_tableName (?es ! 1)
      \<and> r_target (e_relations (entities (fst (extractMetadata newMetadataExtractor
            [orderClass, customerClass])) ! 1) ! 0) = e_tableName (?es ! 0)"
    by (rule C2_batch_targets_resolved [OF refl a b i j ab ba ta tb])
  then have "r_target (e_relations (entities (generateSchema [orderClass, customerClass]) ! 0) ! 0)
               = ''customer''
      \<and> r_target (e_relations (entities (generateSchema [orderClass, customerClass]) ! 1) ! 0)
               = ''order''"
    unfolding generateSchema_def t0 t1 .
  then show ?thesis
    using names targets by (intro conjI) simp_all
qed

text \<open>
  C2 as stated fails for a class whose table name is empty. The class named \<open>_\<close> has the
  empty string as the snake-case form of its name; the lookup then gives the empty string,
  which the test before the assignment takes as absent, and the relation of \<open>Holder\<close> keeps
  the class name \<open>_\<close> as its target, while the relation of \<open>_\<close> is rewritten.
\<close>

theorem C2_empty_table_name_counterexample:
  "map e_name (fst (firstPass newMetadataExtractor [underscoreClass, holderClass]))
     = [''_'', ''Holder'']
   \<and> concat (map (\<lambda>e. map r_target (e_relations e))
         (fst (firstPass newMetadataExtractor [underscoreClass, holderClass])))
     = [''Holder'', ''_'']
   \<and> tablesAndTargets (generateSchema [underscoreClass, holderClass])
     = [([], [''holder'']), (''holder'', [''_''])]"
  by code_simp

section \<open>Unresolved targets\<close>

text \<open>
  A reference line depends on the entity through its table name only; the lookup of the
  second pass does not depend on the relations; a line generated for a relation of an
  entity of the batch is among the reference lines, in the section of the relations and in
  the document.
\<close>

lemma generateRelation_tableName:
  "e_tableName entity' = e_tableName entity
   \<Longrightarrow> generateRelation proto entity' relation = generateRelation proto entity relation"
  by (cases "r_type relation")
     (simp_all add: generateRelation_def generateManyToOne_def generateOneToOne_def
        generateManyToMany_def referenceLine_def cong: option.case_cong)

lemma classToTable_relations:
  "classToTable (es[a := (es ! a)\<lparr> e_relations := rs \<rparr>]) = classToTable es"
proof -
  have "foldl (\<lambda>m e. mapSet m (e_name e) (e_tableName e)) m0 (xs[k := (xs ! k)\<lparr> e_relations := rs \<rparr>])
          = foldl (\<lambda>m e. mapSet m (e_name e) (e_tableName e)) m0 xs" for m0 xs k
  proof (induction xs arbitrary: m0 k)
    case Nil
    then show ?case
      by simp
  next
    case (Cons x xs)
    then show ?case
      by (cases k) simp_all
  qed
  then show ?thesis
    by (simp add: classToTable_def)
qed

lemma relationRefs_member:
  assumes "entity \<in> set ents" and "relation \<in> set (e_relations entity)"
      and "generateRelation proto entity relation = Some line" and "truthy line"
  shows "line \<in> set (relationRefs proto ents)"
  unfolding relationRefs_def using assms
  by (auto intro!: bexI [of _ entity] bexI [of _ relation])

lemma generateRelations_includes:
  assumes "line \<in> set (relationRefs proto ents)"
  shows "includesStr (generateRelations proto ents) line"
proof -
  have "relationRefs proto ents \<noteq> []"
    using assms by (cases "relationRefs proto ents") simp_all
  then have "generateRelations proto ents = join nl (relationRefs proto ents)"
    by (simp add: generateRelations_def)
  then show ?thesis
    using includesStr_join [OF assms] by simp
qed

lemma generate_includes_relations:
  assumes inc: "includesStr (generateRelations proto (entities schema)) line"
      and c: "c \<in> set line" and ns: "\<not> isSpace c"
  shows "includesStr (generate proto g schema) line"
proof -
  define relationsSection where "relationsSection = generateRelations proto (entities schema)"
  obtain p q where "relationsSection = p @ line @ q"
    using includesStr_split inc relationsSection_def by blast
  then have cs: "c \<in> set relationsSection"
    using c by simp
  then have t: "truthy relationsSection"
    by (cases relationsSection) (simp_all add: truthy_def)
  have tt: "truthy (trim relationsSection)"
    using cs ns by (rule trim_not_empty)
  define sections where "sections =
      (if truthy (o_projectName (g_options g)) then [generateProjectHeader (g_options g)] else [])
      @ (if o_includeEnums (g_options g) \<and> enums schema \<noteq> []
         then [generateEnums (enums schema)] else [])
      @ (if truthy (generateTables proto (g_tableGenerator g) (entities schema))
         then [generateTables proto (g_tableGenerator g) (entities schema)] else [])
      @ (if truthy relationsSection then [relationsSection] else [])
      @ (if o_includeSchemas (g_options g) \<and> o_tableGrouping (g_options g) = GroupBySchema
            \<and> truthy (generateTableGroups (entities schema))
         then [generateTableGroups (entities schema)] else [])"
  have "relationsSection \<in> set sections"
    using t by (simp add: sections_def)
  then have "relationsSection \<in> set (filter (\<lambda>s. truthy (trim s)) sections)"
    using tt by simp
  then have "includesStr (join (nl @ nl) (filter (\<lambda>s. truthy (trim s)) sections)) relationsSection"
    by (rule includesStr_join)
  moreover have "generate proto g schema = join (nl @ nl) (filter (\<lambda>s. truthy (trim s)) sections)"
    unfolding generate_def Let_def sections_def relationsSection_def by (rule refl)
  ultimately have "includesStr (generate proto g schema) relationsSection"
    by simp
  then show ?thesis
    using inc relationsSection_def includesStr_trans by blast
qed

lemma emitted_line:
  assumes e: "entity \<in> set (entities schema)" and r: "relation \<in> set (e_relations entity)"
      and g: "generateRelation proto entity relation = Some rendered"
      and inc: "includesStr rendered (''Ref: '' @ rest)"
  shows "includesStr (generateRelations proto (entities schema)) (''Ref: '' @ rest)
       \<and> includesStr (generate proto gen schema) (''Ref: '' @ rest)"
proof -
  have "rendered \<noteq> []"
    using inc by (cases rendered) simp_all
  then have "truthy rendered"
    by (simp add: truthy_def)
  then have "rendered \<in> set (relationRefs proto (entities schema))"
    using relationRefs_member [OF e r g] by simp
  then have "includesStr (generateRelations proto (entities schema)) rendered"
    by (rule generateRelations_includes)
  then have one: "includesStr (generateRelations proto (entities schema)) (''Ref: '' @ rest)"
    using inc by (rule includesStr_trans)
  have "CHR ''R'' \<in> set (''Ref: '' @ rest)" and "\<not> isSpace CHR ''R''"
    by (simp_all add: isSpace_def)
  then have "includesStr (generate proto gen schema) (''Ref: '' @ rest)"
    using one generate_includes_relations by blast
  then show ?thesis
    using one by simp
qed

text \<open>What the generator returns for each kind of relation.\<close>

lemma generateRelation_ManyToOne:
  "r_type relation = ManyToOne
   \<Longrightarrow> generateRelation proto entity relation
       = Some (''Ref: '' @ escapeIdentifier (e_tableName entity) @ ''.''
               @ escapeIdentifier (joinColumnNameOr (r_joinColumn relation)
                                     (toSnakeCase (r_propertyName relation) @ ''_id''))
               @ '' > '' @ escapeIdentifier (r_target relation) @ ''.''
               @ escapeIdentifier (referencedColumnNameOr (r_joinColumn relation) ''id'')
               @ (case generateRelationOptions proto relation of
                    Some options \<Rightarrow> '' '' @ options
                  | None \<Rightarrow> []))"
  by (simp add: generateRelation_def generateManyToOne_def referenceLine_def Let_def
      split: option.splits)

lemma generateRelation_OneToOne:
  "r_type relation = OneToOne \<Longrightarrow> r_joinColumn relation \<noteq> None
   \<Longrightarrow> generateRelation proto entity relation
       = Some (''Ref: '' @ escapeIdentifier (e_tableName entity) @ ''.''
               @ escapeIdentifier (joinColumnNameOr (r_joinColumn relation)
                                     (toSnakeCase (r_propertyName relation) @ ''_id''))
               @ '' - '' @ escapeIdentifier (r_target relation) @ ''.''
               @ escapeIdentifier (referencedColumnNameOr (r_joinColumn relation) ''id'')
               @ (case generateRelationOptions proto relation of
                    Some options \<Rightarrow> '' '' @ options
                  | None \<Rightarrow> []))"
  by (auto simp: generateRelation_def generateOneToOne_def referenceLine_def Let_def
      split: option.splits)

lemma generateRelation_ManyToMany:
  "r_type relation = ManyToMany \<Longrightarrow> r_joinTable relation = Some jt
   \<Longrightarrow> \<exists>first. generateRelation proto entity relation
       = Some (first @ nl
               @ (''Ref: ''
                  @ escapeIdentifier (orElse (jt_name jt)
                      (toSnakeCase (e_tableName entity) @ ''_'' @ toSnakeCase (r_target relation)))
                  @ ''.''
                  @ escapeIdentifier (joinColumnNameOr (firstJoinColumn (jt_inverseJoinColumns jt))
                      (toSnakeCase (r_target relation) @ ''_id''))
                  @ '' > '' @ escapeIdentifier (r_target relation) @ ''.''
                  @ escapeIdentifier
                      (referencedColumnNameOr (firstJoinColumn (jt_inverseJoinColumns jt)) ''id'')))"
  by (simp add: generateRelation_def generateManyToMany_def Let_def)

lemma generateRelation_nothing:
  "r_type relation = OneToMany
   \<or> r_type relation = OneToOne \<and> r_joinColumn relation = None
   \<or> r_type relation = ManyToMany \<and> r_joinTable relation = None
   \<Longrightarrow> generateRelation proto entity relation = None"
  by (auto simp: generateRelation_def generateOneToOne_def generateManyToMany_def)

text \<open>
  C8 (as amended). A relation whose target matches no class name of the batch keeps its
  target in the second pass. When the relation is many-to-one, or one-to-one with a join
  column, or many-to-many with a join table, the section of the relations and the document
  hold the reference line with the unresolved name in the place of the target table; for
  a one-to-many relation, a one-to-one relation without join column and a many-to-many
  relation without join table the generator gives no line. What the other entities resolve
  to does not depend on the relations of this entity. (No function involved has a branch
  that raises.)
\<close>

theorem C8_unresolved_target_lines:
  assumes a: "a < length es" and i: "i < length (e_relations (es ! a))"
      and rel: "relation = e_relations (es ! a) ! i"
      and unknown: "r_target relation \<notin> set (map e_name es)"
      and schema: "entities schema = resolveRelationships es"
  shows "e_relations (entities schema ! a) ! i = relation
       \<and> (r_type relation = ManyToOne \<longrightarrow>
            includesStr (generateRelations proto (entities schema))
              (''Ref: '' @ escapeIdentifier (e_tableName (es ! a)) @ ''.''
               @ escapeIdentifier (joinColumnNameOr (r_joinColumn relation)
                                     (toSnakeCase (r_propertyName relation) @ ''_id''))
               @ '' > '' @ escapeIdentifier (r_target relation) @ ''.''
               @ escapeIdentifier (referencedColumnNameOr (r_joinColumn relation) ''id'')
               @ (case generateRelationOptions proto relation of
                    Some options \<Rightarrow> '' '' @ options
                  | None \<Rightarrow> []))
          \<and> includesStr (generate proto g schema)
              (''Ref: '' @ escapeIdentifier (e_tableName (es ! a)) @ ''.''
               @ escapeIdentifier (joinColumnNameOr (r_joinColumn relation)
                                     (toSnakeCase (r_propertyName relation) @ ''_id''))
               @ '' > '' @ escapeIdentifier (r_target relation) @ ''.''
               @ escapeIdentifier (referencedColumnNameOr (r_joinColumn relation) ''id'')
               @ (case generateRelationOptions proto relation of
                    Some options \<Rightarrow> '' '' @ options
                  | None \<Rightarrow> [])))
       \<and> (r_type relation = OneToOne \<and> r_joinColumn relation \<noteq> None \<longrightarrow>
            includesStr (generateRelations proto (entities schema))
              (''Ref: '' @ escapeIdentifier (e_tableName (es ! a)) @ ''.''
               @ escapeIdentifier (joinColumnNameOr (r_joinColumn relation)
                                     (toSnakeCase (r_propertyName relation) @ ''_id''))
               @ '' - '' @ escapeIdentifier (r_target relation) @ ''.''
               @ escapeIdentifier (referencedColumnNameOr (r_joinColumn relation) ''id'')
               @ (case generateRelationOptions proto relation of
                    Some options \<Rightarrow> '' '' @ options
                  | None \<Rightarrow> []))
          \<and> includesStr (generate proto g schema)
              (''Ref: '' @ escapeIdentifier (e_tableName (es ! a)) @ ''.''
               @ escapeIdentifier (joinColumnNameOr (r_joinColumn relation)
                                     (toSnakeCase (r_propertyName relation) @ ''_id''))
               @ '' - '' @ escapeIdentifier (r_target relation) @ ''.''
               @ escapeIdentifier (referencedColumnNameOr (r_joinColumn relation) ''id'')
               @ (case generateRelationOptions proto relation of
                    Some options \<Rightarrow> '' '' @ options
                  | None \<Rightarrow> [])))
       \<and> (\<forall>jt. r_type relation = ManyToMany \<and> r_joinTable relation = Some jt \<longrightarrow>
            includesStr (generateRelations proto (entities schema))
              (''Ref: ''
               @ escapeIdentifier (orElse (jt_name jt)
                   (toSnakeCase (e_tableName (es ! a)) @ ''_'' @ toSnakeCase (r_target relation)))
               @ ''.''
               @ escapeIdentifier (joinColumnNameOr (firstJoinColumn (jt_inverseJoinColumns jt))
                   (toSnakeCase (r_target relation) @ ''_id''))
               @ '' > '' @ escapeIdentifier (r_target relation) @ ''.''
               @ escapeIdentifier
                   (referencedColumnNameOr (firstJoinColumn (jt_inverseJoinColumns jt)) ''id''))
          \<and> includesStr (generate proto g schema)
              (''Ref: ''
               @ escapeIdentifier (orElse (jt_name jt)
                   (toSnakeCase (e_tableName (es ! a)) @ ''_'' @ toSnakeCase (r_target relation)))
               @ ''.''
               @ escapeIdentifier (joinColumnNameOr (firstJoinColumn (jt_inverseJoinColumns jt))
                   (toSnakeCase (r_target relation) @ ''_id''))
               @ '' > '' @ escapeIdentifier (r_target relation) @ ''.''
               @ escapeIdentifier
                   (referencedColumnNameOr (firstJoinColumn (jt_inverseJoinColumns jt)) ''id'')))
       \<and> (r_type relation = OneToMany
            \<or> r_type relation = OneToOne \<and> r_joinColumn relation = None
            \<or> r_type relation = ManyToMany \<and> r_joinTable relation = None
          \<longrightarrow> generateRelation proto (entities schema ! a) relation = None)
       \<and> (\<forall>c < length es. \<forall>rs.
            c \<noteq> a \<longrightarrow> resolveRelationships (es[a := (es ! a)\<lparr> e_relations := rs \<rparr>]) ! c
                          = resolveRelationships es ! c)"
  (is "?c1 \<and> ?c2 \<and> ?c3 \<and> ?c4 \<and> ?c5 \<and> ?c6")
proof -
  have same: "resolveRelation (classToTable es) relation = relation"
    using classToTable_absent [OF unknown] by (simp add: resolveRelation_def)
  then have c1: ?c1
    using resolved_relation [OF a i] rel schema by simp
  have tn: "e_tableName (entities schema ! a) = e_tableName (es ! a)"
    using resolved_entity [OF a] schema by simp
  have gen: "generateRelation proto (entities schema ! a) relation
               = generateRelation proto (es ! a) relation"
    using tn by (rule generateRelation_tableName)
  have ea: "entities schema ! a \<in> set (entities schema)"
    using a schema by (simp add: resolveRelationships_def Let_def)
  have "i < length (e_relations (entities schema ! a))"
    using i schema by (simp add: resolved_entity [OF a])
  then have ri: "relation \<in> set (e_relations (entities schema ! a))"
    using c1 nth_mem by metis
  have c2: ?c2
  proof
    assume "r_type relation = ManyToOne"
    then have "generateRelation proto (entities schema ! a) relation
        = Some (''Ref: '' @ escapeIdentifier (e_tableName (es ! a)) @ ''.''
               @ escapeIdentifier (joinColumnNameOr (r_joinColumn relation)
                                     (toSnakeCase (r_propertyName relation) @ ''_id''))
               @ '' > '' @ escapeIdentifier (r_target relation) @ ''.''
               @ escapeIdentifier (referencedColumnNameOr (r_joinColumn relation) ''id'')
               @ (case generateRelationOptions proto relation of
                    Some options \<Rightarrow> '' '' @ options
                  | None \<Rightarrow> []))"
      unfolding gen by (rule generateRelation_ManyToOne)
    then show "includesStr (generateRelations proto (entities schema))
              (''Ref: '' @ escapeIdentifier (e_tableName (es ! a)) @ ''.''
               @ escapeIdentifier (joinColumnNameOr (r_joinColumn relation)
                                     (toSnakeCase (r_propertyName relation) @ ''_id''))
               @ '' > '' @ escapeIdentifier (r_target relation) @ ''.''
               @ escapeIdentifier (referencedColumnNameOr (r_joinColumn relation) ''id'')
               @ (case generateRelationOptions proto relation of
                    Some options \<Rightarrow> '' '' @ options
                  | None \<Rightarrow> []))
          \<and> includesStr (generate proto g schema)
              (''Ref: '' @ escapeIdentifier (e_tableName (es ! a)) @ ''.''
               @ escapeIdentifier (joinColumnNameOr (r_joinColumn relation)
                                     (toSnakeCase (r_propertyName relation) @ ''_id''))
               @ '' > '' @ escapeIdentifier (r_target relation) @ ''.''
               @ escapeIdentifier (referencedColumnNameOr (r_joinColumn relation) ''id'')
               @ (case generateRelationOptions proto relation of
                    Some options \<Rightarrow> '' '' @ options
                  | None \<Rightarrow> []))"
      by (rule emitted_line [OF ea ri _ includesStr_refl])
  qed
  have c3: ?c3
  proof
    assume "r_type relation = OneToOne \<and> r_joinColumn relation \<noteq> None"
    then have "generateRelation proto (entities schema ! a) relation
        = Some (''Ref: '' @ escapeIdentifier (e_tableName (es ! a)) @ ''.''
               @ escapeIdentifier (joinColumnNameOr (r_joinColumn relation)
                                     (toSnakeCase (r_propertyName relation) @ ''_id''))
               @ '' - '' @ escapeIdentifier (r_target relation) @ ''.''
               @ escapeIdentifier (referencedColumnNameOr (r_joinColumn relation) ''id'')
               @ (case generateRelationOptions proto relation of
                    Some options \<Rightarrow> '' '' @ options
                  | None \<Rightarrow> []))"
      unfolding gen using generateRelation_OneToOne by blast
    then show "includesStr (generateRelations proto (entities schema))
              (''Ref: '' @ escapeIdentifier (e_tableName (es ! a)) @ ''.''
               @ escapeIdentifier (joinColumnNameOr (r_joinColumn relation)
                                     (toSnakeCase (r_propertyName relation) @ ''_id''))
               @ '' - '' @ escapeIdentifier (r_target relation) @ ''.''
               @ escapeIdentifier (referencedColumnNameOr (r_joinColumn relation) ''id'')
               @ (case generateRelationOptions proto relation of
                    Some options \<Rightarrow> '' '' @ options
                  | None \<Rightarrow> []))
          \<and> includesStr (generate proto g schema)
              (''Ref: '' @ escapeIdentifier (e_tableName (es ! a)) @ ''.''
               @ escapeIdentifier (joinColumnNameOr (r_joinColumn relation)
                                     (toSnakeCase (r_propertyName relation) @ ''_id''))
               @ '' - '' @ escapeIdentifier (r_target relation) @ ''.''
               @ escapeIdentifier (referencedColumnNameOr (r_joinColumn relation) ''id'')
               @ (case generateRelationOptions proto relation of
                    Some options \<Rightarrow> '' '' @ options
                  | None \<Rightarrow> []))"
      by (rule emitted_line [OF ea ri _ includesStr_refl])
  qed
  have c4: ?c4
  proof (intro allI impI)
    fix jt
    assume m: "r_type relation = ManyToMany \<and> r_joinTable relation = Some jt"
    define second where "second = escapeIdentifier (orElse (jt_name jt)
                   (toSnakeCase (e_tableName (es ! a)) @ ''_'' @ toSnakeCase (r_target relation)))
               @ ''.''
               @ escapeIdentifier (joinColumnNameOr (firstJoinColumn (jt_inverseJoinColumns jt))
                   (toSnakeCase (r_target relation) @ ''_id''))
               @ '' > '' @ escapeIdentifier (r_target relation) @ ''.''
               @ escapeIdentifier
                   (referencedColumnNameOr (firstJoinColumn (jt_inverseJoinColumns jt)) ''id'')"
    obtain first where
      "generateRelation proto (es ! a) relation = Some (first @ nl @ (''Ref: '' @ second))"
      using generateRelation_ManyToMany [of relation jt proto "es ! a"] m
      unfolding second_def by blast
    then have g: "generateRelation proto (entities schema ! a) relation
                    = Some ((first @ nl) @ (''Ref: '' @ second) @ [])"
      unfolding gen by simp
    have "includesStr ((first @ nl) @ (''Ref: '' @ second) @ []) (''Ref: '' @ second)"
      by (rule includesStr_append)
    then have "includesStr (generateRelations proto (entities schema)) (''Ref: '' @ second)
             \<and> includesStr (generate proto g schema) (''Ref: '' @ second)"
      by (rule emitted_line [OF ea ri g])
    then show "includesStr (generateRelations proto (entities schema))
              (''Ref: ''
               @ escapeIdentifier (orElse (jt_name jt)
                   (toSnakeCase (e_tableName (es ! a)) @ ''_'' @ toSnakeCase (r_target relation)))
               @ ''.''
               @ escapeIdentifier (joinColumnNameOr (firstJoinColumn (jt_inverseJoinColumns jt))
                   (toSnakeCase (r_target relation) @ ''_id''))
               @ '' > '' @ escapeIdentifier (r_target relation) @ ''.''
               @ escapeIdentifier
                   (referencedColumnNameOr (firstJoinColumn (jt_inverseJoinColumns jt)) ''id''))
          \<and> includesStr (generate proto g schema)
              (''Ref: ''
               @ escapeIdentifier (orElse (jt_name jt)
                   (toSnakeCase (e_tableName (es ! a)) @ ''_'' @ toSnakeCase (r_target relation)))
               @ ''.''
               @ escapeIdentifier (joinColumnNameOr (firstJoinColumn (jt_inverseJoinColumns jt))
                   (toSnakeCase (r_target relation) @ ''_id''))
               @ '' > '' @ escapeIdentifier (r_target relation) @ ''.''
               @ escapeIdentifier
                   (referencedColumnNameOr (firstJoinColumn (jt_inverseJoinColumns jt)) ''id''))"
      unfolding second_def .
  qed
  have c5: ?c5
    using generateRelation_nothing by blast
  have c6: ?c6
    by (simp add: resolveRelationships_def Let_def classToTable_relations)
  show ?thesis
    using c1 c2 c3 c4 c5 c6 by (intro conjI)
qed

theorem C8_unresolved_target_lines_witness:
  "r_target vendorRelation \<notin> set (map e_name [invoiceEntity, customerEntity])
   \<and> r_type vendorRelation = ManyToOne
   \<and> e_relations (entities invoiceSchema ! 0) ! 0 = vendorRelation
   \<and> includesStr (generateRelations objectPrototype (entities invoiceSchema))
       ''Ref: invoice.vendor_id > Vendor.id [delete: set null]''
   \<and> includesStr (generate objectPrototype (newDBMLGenerator None) invoiceSchema)
       ''Ref: invoice.vendor_id > Vendor.id [delete: set null]''"
proof -
  let ?es = "[invoiceEntity, customerEntity]"
  have a: "0 < length ?es"
    by simp
  have i: "0 < length (e_relations (?es ! 0))"
    by (simp add: invoiceEntity_def)
  have rel: "vendorRelation = e_relations (?es ! 0) ! 0"
    by (simp add: invoiceEntity_def)
  have unknown: "r_target vendorRelation \<notin> set (map e_name ?es)"
    by code_simp
  have schema: "entities invoiceSchema = resolveRelationships ?es"
    by (simp add: invoiceSchema_def)
  have kind: "r_type vendorRelation = ManyToOne"
    by (simp add: vendorRelation_def)
  have line: "''Ref: '' @ escapeIdentifier (e_tableName (?es ! 0)) @ ''.''
               @ escapeIdentifier (joinColumnNameOr (r_joinColumn vendorRelation)
                                     (toSnakeCase (r_propertyName vendorRelation) @ ''_id''))
               @ '' > '' @ escapeIdentifier (r_target vendorRelation) @ ''.''
               @ escapeIdentifier (referencedColumnNameOr (r_joinColumn vendorRelation) ''id'')
               @ (case generateRelationOptions objectPrototype vendorRelation of
                    Some options \<Rightarrow> '' '' @ options
                  | None \<Rightarrow> [])
             = ''Ref: invoice.vendor_id > Vendor.id [delete: set null]''"
    by code_simp
  note c8 = C8_unresolved_target_lines [OF a i rel unknown schema,
      of objectPrototype "newDBMLGenerator None"]
  have r1: "e_relations (entities invoiceSchema ! 0) ! 0 = vendorRelation"
    using c8 by (elim conjE)
  have r2: "includesStr (generateRelations objectPrototype (entities invoiceSchema))
              ''Ref: invoice.vendor_id > Vendor.id [delete: set null]''
          \<and> includesStr (generate objectPrototype (newDBMLGenerator None) invoiceSchema)
              ''Ref: invoice.vendor_id > Vendor.id [delete: set null]''"
    using c8 kind unfolding line by (elim conjE) blast
  show ?thesis
    using unknown kind r1 r2 by (intro conjI) (elim conjE, assumption)+
qed

text \<open>
  C8 as stated fails: not every relation with an unresolved target gets a reference line.
  With \<open>Customer\<close> alone in the batch, its one-to-many relation keeps the target \<open>Order\<close>,
  which is no class of the batch, and the section of the relations is empty: the
  document does not hold the unresolved name.
\<close>

theorem C8_one_to_many_counterexample:
  "map e_name (entities (generateSchema [customerClass])) = [''Customer'']
   \<and> concat (map (\<lambda>e. map r_type (e_relations e)) (entities (generateSchema [customerClass])))
     = [OneToMany]
   \<and> tablesAndTargets (generateSchema [customerClass]) = [(''customer'', [''Order''])]
   \<and> generateRelations objectPrototype (entities (generateSchema [customerClass])) = []
   \<and> \<not> includesStr (generateDBML objectPrototype None [customerClass]) ''Order''"
  by code_simp

section \<open>The registry of enums\<close>

text \<open>
  Whatever extractor runs \<open>extractMetadata\<close>, the enums of the schema it returns are those
  of its registry before the call and those that the entities of the call refer to.
\<close>

lemma mapSet_values: "set (mapValues (mapSet m k v)) \<subseteq> set (mapValues m) \<union> {v}"
  by (induction m k v rule: mapSet.induct) (auto simp: mapValues_def)

lemma extractEnumMetadata_enums:
  "set (mapValues (snd (extractEnumMetadata i st)))
     \<subseteq> set (mapValues (snd st)) \<union> set (enumOfNode i)"
proof (cases "getSymbol i")
  case None
  then show ?thesis
    by (simp add: extractEnumMetadata_def Let_def)
next
  case (Some symbol)
  show ?thesis
  proof (cases "s_declarations symbol")
    case Nil
    then show ?thesis
      using Some by (simp add: extractEnumMetadata_def Let_def)
  next
    case (Cons enumDecl others)
    show ?thesis
    proof (cases enumDecl)
      case (EnumDeclaration members)
      have "set (mapValues (mapSet (snd st) (s_name symbol)
                   \<lparr> en_name = toSnakeCase (s_name symbol), en_values = enumValuesOf members \<rparr>))
              \<subseteq> set (mapValues (snd st))
                \<union> {\<lparr> en_name = toSnakeCase (s_name symbol), en_values = enumValuesOf members \<rparr>}"
        by (rule mapSet_values)
      then show ?thesis
        using Some Cons EnumDeclaration
        by (auto simp: extractEnumMetadata_def enumOfNode_def enumValuesOf_def Let_def)
    next
      case OtherDeclaration
      then show ?thesis
        using Some Cons by (simp add: extractEnumMetadata_def Let_def)
    qed
  qed
qed

lemma columnOption_enums:
  "set (mapValues (snd (columnOption name i st)))
     \<subseteq> set (mapValues (snd st)) \<union> set (if name = ''enum'' then enumOfNode i else [])"
  using extractEnumMetadata_enums [of i "(fst st, snd st)"]
  by (auto simp: columnOption_def Let_def)

lemma extractColumnOptions_enums:
  "set (mapValues (snd (extractColumnOptions props st)))
     \<subseteq> set (mapValues (snd st)) \<union> set (enumsOfOptions props)"
proof (induction props st rule: extractColumnOptions.induct)
  case (2 name initializer props st)
  then show ?case
    using columnOption_enums [of name initializer st] by auto
qed simp_all

lemma extractOptionsOfArguments_enums:
  "set (mapValues (snd (extractOptionsOfArguments args st)))
     \<subseteq> set (mapValues (snd st)) \<union> set (enumsOfArguments args)"
proof (induction args st rule: extractOptionsOfArguments.induct)
  case (2 arg args st)
  show ?case
  proof (cases "getKind arg")
    case (ObjectLiteralExpression props)
    then show ?thesis
      using 2(3) [OF ObjectLiteralExpression] extractColumnOptions_enums [of props st] by auto
  qed (use 2 in auto)
qed simp

lemma extractColumnFromProperty_enums:
  "set (mapValues (snd (extractColumnFromProperty property m)))
     \<subseteq> set (mapValues m) \<union> set (enumsOfProperty property)"
proof (cases "find (\<lambda>d. d_name d \<in> set columnDecoratorNames) (p_decorators property)")
  case None
  then show ?thesis
    by (simp add: extractColumnFromProperty_def)
next
  case (Some columnDecorator)
  then show ?thesis
    using extractOptionsOfArguments_enums
            [of "d_arguments columnDecorator" "(roleMetadata (p_name property) columnDecorator, m)"]
    by (simp add: extractColumnFromProperty_def enumsOfProperty_def Let_def)
qed

lemma extractColumns_enums:
  "set (mapValues (snd (extractColumns properties m)))
     \<subseteq> set (mapValues m) \<union> set (concat (map enumsOfProperty properties))"
proof (induction properties arbitrary: m)
  case (Cons property properties)
  show ?case
    using Cons [of "snd (extractColumnFromProperty property m)"]
      extractColumnFromProperty_enums [of property m]
    by (auto simp: Let_def)
qed simp

lemma firstPass_enums:
  "set (mapValues (enumsMap (snd (firstPass this ents))))
     \<subseteq> set (mapValues (enumsMap this)) \<union> set (referencedEnums ents)"
proof (induction ents arbitrary: this)
  case (Cons entity ents)
  have step: "set (mapValues (enumsMap (snd (extractEntityMetadata this entity))))
          \<subseteq> set (mapValues (enumsMap this))
            \<union> set (concat (map enumsOfProperty (cl_properties entity)))"
    using extractColumns_enums [of "cl_properties entity" "enumsMap this"]
    by (simp add: extractEntityMetadata_def Let_def)
  show ?case
    using Cons [of "snd (extractEntityMetadata this entity)"] step
    by (auto simp: Let_def referencedEnums_def)
qed (simp add: referencedEnums_def)

lemma extractMetadata_enums:
  "set (enums (fst (extractMetadata this ents)))
     \<subseteq> set (mapValues (enumsMap this)) \<union> set (referencedEnums ents)"
  using firstPass_enums [of this ents] by (simp add: extractMetadata_def Let_def)

text \<open>
  C9 (as amended). An invocation that constructs its own extractor, as \<open>generateSchema\<close> and
  \<open>generateDBML\<close> do, returns in the enums of its schema only enums that its own input
  entities refer to, whatever was generated before it.
\<close>

theorem C9_fresh_extractor_enums:
  "set (enums (generateSchema ents)) \<subseteq> set (referencedEnums ents)"
  using extractMetadata_enums [of newMetadataExtractor ents]
  by (simp add: generateSchema_def newMetadataExtractor_def mapValues_def)

text \<open>
  C9 as stated fails for two calls of \<open>extractMetadata\<close> on one extractor: after a first
  call on the entity \<open>Account\<close>, a second call on no entity at all returns the enum
  \<open>user_role\<close> of the first call.
\<close>

theorem C9_reused_extractor_counterexample:
  "enums (fst (extractMetadata (snd (extractMetadata newMetadataExtractor [accountClass])) []))
     = [\<lparr> en_name = ''user_role'', en_values = [''admin'', ''user''] \<rparr>]
   \<and> referencedEnums [] = []"
  by code_simp

end
